theory Spec2Isabelle
  imports Main "HOL-Library.Word"
begin

unbundle bit_operations_syntax

section \<open>WinPR thread handles: winpr/libwinpr/thread/thread.c\<close>

text \<open>
  A shallow embedding of the POSIX branch (\<^verbatim>\<open>#ifndef _WIN32\<close>) of thread.c.  Every C
  function becomes a function on an explicit \<open>world\<close>: the heap of thread objects, the
  optional thread list, the last-error slot and a log of the calls the function makes to
  its collaborators, in program order.  The host (pthreads, the event primitive, the APC
  queue, the allocator) is a parameter: it says which calls succeed and what the user's
  start routine does.  A function that dereferences a pointer to no live object has no
  defined behaviour in C; the model returns \<open>None\<close> there.

  The two build options the file reads are parameters too: \<^verbatim>\<open>WITH_THREAD_LIST\<close> and
  \<^verbatim>\<open>ANDROID\<close>.  \<^verbatim>\<open>WITH_DEBUG_THREADS\<close> only prints stack traces (\<^verbatim>\<open>dump_thread\<close> is
  empty without it) and is taken as off.
\<close>

subsection \<open>Values\<close>

type_synonym DWORD = "32 word"

text \<open>The handle kinds of \<^verbatim>\<open>winpr/handle.h\<close> that matter here; zeroed memory reads as
  \<open>HANDLE_TYPE_NONE\<close>.\<close>

datatype handle_type =
  HANDLE_TYPE_NONE | HANDLE_TYPE_PROCESS | HANDLE_TYPE_THREAD | HANDLE_TYPE_EVENT
  | HANDLE_TYPE_MUTEX

datatype error_code =
  ERROR_SUCCESS | ERROR_INVALID_HANDLE | ERROR_INVALID_PARAMETER | ERROR_CALL_NOT_IMPLEMENTED


text \<open>A \<^verbatim>\<open>HANDLE\<close> is a pointer: null, the all-ones value, or the address of an object.\<close>

datatype HANDLE = NULL | INVALID_HANDLE_VALUE | Ptr nat

text \<open>\<^verbatim>\<open>UserApcItem\<close> (thread.c) with the fields of the \<^verbatim>\<open>WINPR_APC_ITEM\<close> it starts
  with that \<^verbatim>\<open>QueueUserAPC\<close> and \<^verbatim>\<open>userAPC\<close> write.  Function pointers and arguments are
  addresses.\<close>

datatype apc_type = APC_TYPE_USER | APC_TYPE_TIMER | APC_TYPE_HANDLE_FREE

record UserApcItem =
  apc_item_type :: apc_type
  markedForFree :: bool
  alwaysSignaled :: bool
  markedForRemove :: bool
  completion :: nat
  completionArg :: nat

text \<open>\<^verbatim>\<open>WINPR_THREAD\<close> (thread.h, declared outside this file): the fields thread.c reads
  and writes.  \<open>event\<close> is the state of the signal latch, \<open>apc\<close> the callbacks queued for
  the thread, \<open>thread\<close> the \<^verbatim>\<open>pthread_t\<close>.  The three mutexes and two condition variables
  are named by \<open>mutex_id\<close> and \<open>cond_id\<close> below; their state belongs to the host.\<close>

record WINPR_THREAD =
  Type :: handle_type
  started :: bool
  exited :: bool
  detached :: bool
  joined :: bool
  dwStackSize :: nat
  lpParameter :: nat
  lpStartAddress :: "nat option"
  lpThreadAttributes :: nat
  dwExitCode :: DWORD
  thread :: nat
  event :: bool
  apc :: "UserApcItem list"

datatype mutex_id = M_mutex | M_threadIsReadyMutex | M_threadReadyMutex

datatype cond_id = C_threadIsReady | C_threadReady

datatype field = F_started | F_exited | F_detached | F_joined | F_dwExitCode

datatype log_level = WLOG_ERR | WLOG_WARN | WLOG_DBG

datatype alloc = A_WINPR_THREAD | A_UserApcItem

text \<open>The operations of each collaborator.\<close>

datatype latch_op = Lt_init | Lt_set | Lt_reset | Lt_uninit

datatype mutex_op = Mx_init | Mx_lock | Mx_unlock | Mx_destroy

datatype cond_op = Cv_init | Cv_signal | Cv_timedwait mutex_id nat | Cv_destroy

datatype attr_op = At_init | At_setdetachstate | At_setstacksize nat | At_destroy

datatype pthread_op = Th_create | Th_join | Th_detach | Th_cancel

datatype apc_op = Ap_init | Ap_uninit | Ap_cleanupThread

datatype list_op = Ld_new | Ld_add nat | Ld_remove nat | Ld_lock | Ld_unlock

text \<open>What a function does to the world outside its own variables, one event per call
  (or per write to a flag that other threads read).  The first argument of most events
  is the address of the thread object the call is made on.\<close>

datatype event =
    Calloc alloc
  | Free nat
  | Winpr_event latch_op nat
  | Pthread_mutex mutex_op nat mutex_id
  | Pthread_cond cond_op nat cond_id
  | Pthread_attr attr_op
  | Pthread pthread_op nat
  | Pthread_exit DWORD
  | Apc apc_op nat
  | Apc_init_mainThread
  | Apc_register nat nat nat
  | Tls_alloc
  | Tls_set_value nat
  | ListDictionary list_op
  | Start_routine nat nat
  | Apc_routine nat nat
  | Store nat field
  | WLog log_level
  | Set_last_error error_code

text \<open>The events under the names of the C functions they stand for.\<close>

abbreviation Winpr_event_init :: "nat \<Rightarrow> event" where
  "Winpr_event_init \<equiv> Winpr_event Lt_init"

abbreviation Winpr_event_set :: "nat \<Rightarrow> event" where
  "Winpr_event_set \<equiv> Winpr_event Lt_set"

abbreviation Winpr_event_reset :: "nat \<Rightarrow> event" where
  "Winpr_event_reset \<equiv> Winpr_event Lt_reset"

abbreviation Winpr_event_uninit :: "nat \<Rightarrow> event" where
  "Winpr_event_uninit \<equiv> Winpr_event Lt_uninit"

abbreviation Pthread_mutex_init :: "nat \<Rightarrow> mutex_id \<Rightarrow> event" where
  "Pthread_mutex_init \<equiv> Pthread_mutex Mx_init"

abbreviation Pthread_mutex_lock :: "nat \<Rightarrow> mutex_id \<Rightarrow> event" where
  "Pthread_mutex_lock \<equiv> Pthread_mutex Mx_lock"

abbreviation Pthread_mutex_unlock :: "nat \<Rightarrow> mutex_id \<Rightarrow> event" where
  "Pthread_mutex_unlock \<equiv> Pthread_mutex Mx_unlock"

abbreviation Pthread_mutex_destroy :: "nat \<Rightarrow> mutex_id \<Rightarrow> event" where
  "Pthread_mutex_destroy \<equiv> Pthread_mutex Mx_destroy"

abbreviation Pthread_cond_init :: "nat \<Rightarrow> cond_id \<Rightarrow> event" where
  "Pthread_cond_init \<equiv> Pthread_cond Cv_init"

abbreviation Pthread_cond_signal :: "nat \<Rightarrow> cond_id \<Rightarrow> event" where
  "Pthread_cond_signal \<equiv> Pthread_cond Cv_signal"

abbreviation Pthread_cond_timedwait :: "nat \<Rightarrow> cond_id \<Rightarrow> mutex_id \<Rightarrow> nat \<Rightarrow> event" where
  "Pthread_cond_timedwait a c m secs \<equiv> Pthread_cond (Cv_timedwait m secs) a c"

abbreviation Pthread_cond_destroy :: "nat \<Rightarrow> cond_id \<Rightarrow> event" where
  "Pthread_cond_destroy \<equiv> Pthread_cond Cv_destroy"

abbreviation Pthread_attr_init :: event where
  "Pthread_attr_init \<equiv> Pthread_attr At_init"

abbreviation Pthread_attr_setdetachstate :: event where
  "Pthread_attr_setdetachstate \<equiv> Pthread_attr At_setdetachstate"

abbreviation Pthread_attr_setstacksize :: "nat \<Rightarrow> event" where
  "Pthread_attr_setstacksize n \<equiv> Pthread_attr (At_setstacksize n)"

abbreviation Pthread_attr_destroy :: event where
  "Pthread_attr_destroy \<equiv> Pthread_attr At_destroy"

abbreviation Pthread_create :: "nat \<Rightarrow> event" where
  "Pthread_create \<equiv> Pthread Th_create"


abbreviation Pthread_detach :: "nat \<Rightarrow> event" where
  "Pthread_detach \<equiv> Pthread Th_detach"

abbreviation Pthread_cancel :: "nat \<Rightarrow> event" where
  "Pthread_cancel \<equiv> Pthread Th_cancel"

abbreviation Apc_init :: "nat \<Rightarrow> event" where
  "Apc_init \<equiv> Apc Ap_init"

abbreviation Apc_uninit :: "nat \<Rightarrow> event" where
  "Apc_uninit \<equiv> Apc Ap_uninit"

abbreviation Apc_cleanupThread :: "nat \<Rightarrow> event" where
  "Apc_cleanupThread \<equiv> Apc Ap_cleanupThread"

abbreviation List_new :: event where
  "List_new \<equiv> ListDictionary Ld_new"

abbreviation List_add :: "nat \<Rightarrow> event" where
  "List_add a \<equiv> ListDictionary (Ld_add a)"

abbreviation List_remove :: "nat \<Rightarrow> event" where
  "List_remove a \<equiv> ListDictionary (Ld_remove a)"

abbreviation List_lock :: event where
  "List_lock \<equiv> ListDictionary Ld_lock"

abbreviation List_unlock :: event where
  "List_unlock \<equiv> ListDictionary Ld_unlock"

record world =
  heap :: "nat \<Rightarrow> WINPR_THREAD option"
  next_block :: nat
  thread_list :: "nat list option"
  threads_InitOnce :: bool
  mainThreadId :: "nat option"
  last_error :: error_code
  trace :: "event list"

text \<open>The build: which of the two preprocessor symbols are defined.\<close>

record config =
  WITH_THREAD_LIST :: bool
  ANDROID :: bool

text \<open>The host: whether a call reports success, the identity \<^verbatim>\<open>pthread_self\<close> returns,
  the identity \<^verbatim>\<open>pthread_create\<close> gives the new thread, and what a start routine does
  when called with an argument: it may change any thread object (so it also stands for
  what other threads do meanwhile) and either returns a \<open>DWORD\<close> or ends the thread
  without returning (\<open>None\<close>).\<close>

record host =
  succeeds :: "event \<Rightarrow> bool"
  pthread_self :: nat
  new_thread :: nat
  routine :: "nat \<Rightarrow> nat \<Rightarrow> (nat \<Rightarrow> WINPR_THREAD option)
                \<Rightarrow> DWORD option \<times> (nat \<Rightarrow> WINPR_THREAD option)"

subsection \<open>Steps\<close>

definition emit :: "event \<Rightarrow> world \<Rightarrow> world" where
  "emit e w = w\<lparr>trace := trace w @ [e]\<rparr>"

text \<open>A call whose result the code reads.\<close>

definition call :: "host \<Rightarrow> event \<Rightarrow> world \<Rightarrow> bool \<times> world" where
  "call h e w = (succeeds h e, emit e w)"

text \<open>A write through a \<^verbatim>\<open>WINPR_THREAD*\<close>; \<open>store\<close> is a write to one of the flags or
  the exit code, which is logged.\<close>

definition upd :: "nat \<Rightarrow> (WINPR_THREAD \<Rightarrow> WINPR_THREAD) \<Rightarrow> world \<Rightarrow> world" where
  "upd a f w = w\<lparr>heap := (heap w)(a := map_option f (heap w a))\<rparr>"

definition store :: "nat \<Rightarrow> field \<Rightarrow> (WINPR_THREAD \<Rightarrow> WINPR_THREAD) \<Rightarrow> world \<Rightarrow> world" where
  "store a fld f w = emit (Store a fld) (upd a f w)"

definition SetLastError :: "error_code \<Rightarrow> world \<Rightarrow> world" where
  "SetLastError c w = emit (Set_last_error c) (w\<lparr>last_error := c\<rparr>)"

text \<open>The pattern \<^verbatim>\<open>rc = destroy(...); if (rc) WLog_ERR(...)\<close> of \<^verbatim>\<open>cleanup_handle\<close>.\<close>

definition destroy_logged :: "host \<Rightarrow> event \<Rightarrow> world \<Rightarrow> world" where
  "destroy_logged h e w =
     (let (ok, w1) = call h e w in if ok then w1 else emit (WLog WLOG_ERR) w1)"

subsection \<open>Collaborators declared outside thread.c\<close>

text \<open>Modelled from the spec: the signal primitive (\<^verbatim>\<open>winpr_event_set\<close>,
  \<^verbatim>\<open>winpr_event_reset\<close>, \<^verbatim>\<open>winpr_event_init\<close>, \<^verbatim>\<open>winpr_event_uninit\<close> are not in this
  file).  It is a boolean latch, settable and resettable; a call that fails leaves the
  latch as it was.\<close>

definition winpr_event_set :: "host \<Rightarrow> nat \<Rightarrow> world \<Rightarrow> bool \<times> world" where
  "winpr_event_set h a w =
     (let (ok, w1) = call h (Winpr_event_set a) w
      in if ok then (True, upd a (\<lambda>t. t\<lparr>event := True\<rparr>) w1) else (False, w1))"

definition winpr_event_reset :: "host \<Rightarrow> nat \<Rightarrow> world \<Rightarrow> bool \<times> world" where
  "winpr_event_reset h a w =
     (let (ok, w1) = call h (Winpr_event_reset a) w
      in if ok then (True, upd a (\<lambda>t. t\<lparr>event := False\<rparr>) w1) else (False, w1))"

text \<open>Modelled from the spec: \<^verbatim>\<open>winpr_Handle_GetInfo\<close> of handle.h (not in this file).
  It rejects the null handle and \<^verbatim>\<open>INVALID_HANDLE_VALUE\<close>, and otherwise reads the
  object's \<open>Type\<close> and hands the object back.\<close>

datatype handle_info = Dangling | Rejected | Info handle_type nat

definition winpr_Handle_GetInfo :: "HANDLE \<Rightarrow> world \<Rightarrow> handle_info" where
  "winpr_Handle_GetInfo handle w =
     (case handle of
        NULL \<Rightarrow> Rejected
      | INVALID_HANDLE_VALUE \<Rightarrow> Rejected
      | Ptr a \<Rightarrow> (case heap w a of None \<Rightarrow> Dangling | Some t \<Rightarrow> Info (Type t) a))"

text \<open>Modelled from the spec: the callback queue (\<^verbatim>\<open>apc_register\<close>,
  \<^verbatim>\<open>apc_cleanupThread\<close> of apc.h, not in this file).  Registering appends an item to the
  target's queue (first in, first out); the drain at thread exit empties it.\<close>

definition apc_register :: "nat \<Rightarrow> UserApcItem \<Rightarrow> world \<Rightarrow> world" where
  "apc_register a item w =
     emit (Apc_register a (completion item) (completionArg item))
       (upd a (\<lambda>t. t\<lparr>apc := apc t @ [item]\<rparr>) w)"

definition apc_cleanupThread :: "nat \<Rightarrow> world \<Rightarrow> world" where
  "apc_cleanupThread a w = emit (Apc_cleanupThread a) (upd a (\<lambda>t. t\<lparr>apc := []\<rparr>) w)"

text \<open>Modelled from the spec: the diagnostic registry (\<^verbatim>\<open>ListDictionary\<close> of
  collections.h, not in this file), with add, remove, contains and lookup by identity.
  thread.c registers the pointer \<^verbatim>\<open>&thread->thread\<close> as the key and compares keys with
  \<^verbatim>\<open>thread_compare\<close>, which dereferences both: an entry's key is the \<^verbatim>\<open>pthread_t\<close> its
  object holds now.  The list holds the objects' addresses in the order they were
  added.\<close>

definition key_of :: "world \<Rightarrow> nat \<Rightarrow> nat option" where
  "key_of w b = map_option thread (heap w b)"

definition ListDictionary_Contains :: "world \<Rightarrow> nat \<Rightarrow> bool" where
  "ListDictionary_Contains w k =
     (case thread_list w of
        None \<Rightarrow> False
      | Some l \<Rightarrow> list_ex (\<lambda>b. key_of w b = Some k) l)"

definition ListDictionary_GetItemValue :: "world \<Rightarrow> nat \<Rightarrow> nat option" where
  "ListDictionary_GetItemValue w k =
     (case thread_list w of
        None \<Rightarrow> None
      | Some l \<Rightarrow> find (\<lambda>b. key_of w b = Some k) l)"

definition ListDictionary_Add :: "host \<Rightarrow> nat \<Rightarrow> world \<Rightarrow> bool \<times> world" where
  "ListDictionary_Add h a w =
     (let (ok, w1) = call h (List_add a) w
      in case thread_list w1 of
           None \<Rightarrow> (False, w1)
         | Some l \<Rightarrow> if ok then (True, w1\<lparr>thread_list := Some (l @ [a])\<rparr>) else (False, w1))"

definition ListDictionary_Remove :: "nat \<Rightarrow> world \<Rightarrow> world" where
  "ListDictionary_Remove a w =
     (let w1 = emit (List_remove a) w
      in case thread_list w1 of
           None \<Rightarrow> w1
         | Some l \<Rightarrow>
             (case find (\<lambda>b. key_of w1 b = key_of w1 a) l of
                None \<Rightarrow> w1
              | Some b \<Rightarrow> w1\<lparr>thread_list := Some (remove1 b l)\<rparr>))"

subsection \<open>thread.c\<close>



definition set_event :: "host \<Rightarrow> nat \<Rightarrow> world \<Rightarrow> bool \<times> world" where
  "set_event h a w = winpr_event_set h a w"

definition reset_event :: "host \<Rightarrow> nat \<Rightarrow> world \<Rightarrow> bool \<times> world" where
  "reset_event h a w = winpr_event_reset h a w"

text \<open>\<^verbatim>\<open>initializeThreads\<close>, run once through \<^verbatim>\<open>InitOnceExecuteOnce\<close>.  In the source the
  failure branch of \<^verbatim>\<open>ListDictionary_New\<close> jumps to a label the function does not have;
  here it falls through to the \<^verbatim>\<open>return TRUE\<close> with the list left null.\<close>

definition initializeThreads :: "config \<Rightarrow> host \<Rightarrow> world \<Rightarrow> world" where
  "initializeThreads cfg h w =
     (let (ok, w1) = call h Apc_init_mainThread w in
      if \<not> ok then emit (WLog WLOG_ERR) w1
      else
        (let w2 = w1\<lparr>mainThreadId := Some (pthread_self h)\<rparr>;
             (tls, w3) = call h Tls_alloc w2;
             w4 = (if \<not> tls then emit (WLog WLOG_ERR) w3 else w3)
         in if WITH_THREAD_LIST cfg then
              (let (made, w5) = call h List_new w4
               in if \<not> made then emit (WLog WLOG_ERR) w5
                  else w5\<lparr>thread_list := Some []\<rparr>)
            else w4))"

definition InitOnceExecuteOnce :: "config \<Rightarrow> host \<Rightarrow> world \<Rightarrow> world" where
  "InitOnceExecuteOnce cfg h w =
     (if threads_InitOnce w then w
      else (initializeThreads cfg h w)\<lparr>threads_InitOnce := True\<rparr>)"

text \<open>\<^verbatim>\<open>cleanup_handle\<close>: a null argument returns at once; otherwise the seven releases,
  the removal from the thread list (when built with it) and the \<^verbatim>\<open>free\<close>.\<close>

definition cleanup_handle :: "config \<Rightarrow> host \<Rightarrow> nat option \<Rightarrow> world \<Rightarrow> world option" where
  "cleanup_handle cfg h obj w =
     (case obj of
        None \<Rightarrow> Some w
      | Some a \<Rightarrow>
          (case heap w a of
             None \<Rightarrow> None
           | Some t \<Rightarrow>
               let w1 = destroy_logged h (Apc_uninit a) w;
                   w2 = destroy_logged h (Pthread_cond_destroy a C_threadIsReady) w1;
                   w3 = destroy_logged h (Pthread_cond_destroy a C_threadReady) w2;
                   w4 = destroy_logged h (Pthread_mutex_destroy a M_threadIsReadyMutex) w3;
                   w5 = destroy_logged h (Pthread_mutex_destroy a M_threadReadyMutex) w4;
                   w6 = destroy_logged h (Pthread_mutex_destroy a M_mutex) w5;
                   w7 = emit (Winpr_event_uninit a) w6;
                   w8 = (if WITH_THREAD_LIST cfg then ListDictionary_Remove a w7 else w7);
                   w9 = emit (Free a) w8
               in Some (w9\<lparr>heap := (heap w9)(a := None)\<rparr>)))"

text \<open>The code of \<^verbatim>\<open>thread_launcher\<close> from its label \<^verbatim>\<open>exit:\<close> on, for a non-null
  \<^verbatim>\<open>thread\<close>; \<open>rc\<close> is the local variable of that name.\<close>

definition thread_launcher_exit :: "config \<Rightarrow> host \<Rightarrow> nat \<Rightarrow> DWORD \<Rightarrow> world \<Rightarrow> world option" where
  "thread_launcher_exit cfg h a rc w =
     (case heap w a of
        None \<Rightarrow> None
      | Some t \<Rightarrow>
          let w1 = apc_cleanupThread a w;
              w2 = (if \<not> exited t then store a F_dwExitCode (\<lambda>t. t\<lparr>dwExitCode := rc\<rparr>) w1
                    else w1);
              (_, w3) = set_event h a w2;
              w4 = emit (Pthread_cond_signal a C_threadReady) w3
          in if detached t \<or> \<not> started t then cleanup_handle cfg h (Some a) w4 else Some w4)"

text \<open>\<^verbatim>\<open>thread_launcher\<close>, the entry point of the spawned thread.  The last argument of
  \<open>Pthread_cond_timedwait\<close> is the \<^verbatim>\<open>tv_sec\<close> of the \<^verbatim>\<open>timespec\<close> \<^verbatim>\<open>{ 1, 0 }\<close> the code
  passes.  When the start routine does not return, the code after the call is not
  run.\<close>

definition thread_launcher :: "config \<Rightarrow> host \<Rightarrow> nat option \<Rightarrow> world \<Rightarrow> world option" where
  "thread_launcher cfg h arg w =
     (case arg of
        None \<Rightarrow> Some (emit (WLog WLOG_ERR) w)
      | Some a \<Rightarrow>
          (case heap w a of
             None \<Rightarrow> None
           | Some t \<Rightarrow>
               let (bound, w1) = call h (Tls_set_value a) w in
               if \<not> bound then thread_launcher_exit cfg h a 0 (emit (WLog WLOG_ERR) w1)
               else
                 (case lpStartAddress t of
                    None \<Rightarrow> thread_launcher_exit cfg h a 0 (emit (WLog WLOG_ERR) w1)
                  | Some fkt \<Rightarrow>
                      let (locked, w2) = call h (Pthread_mutex_lock a M_threadIsReadyMutex) w1 in
                      if \<not> locked then thread_launcher_exit cfg h a 0 w2
                      else
                        let (signalled, w3) = call h (Pthread_cond_signal a C_threadReady) w2 in
                        if \<not> signalled
                        then thread_launcher_exit cfg h a 0
                               (emit (Pthread_mutex_unlock a M_threadIsReadyMutex)
                                  (emit (WLog WLOG_ERR) w3))
                        else
                          let w4 = emit (Pthread_cond_timedwait a C_threadIsReady
                                           M_threadIsReadyMutex 1) w3 in
                          if WITH_THREAD_LIST cfg \<and> \<not> ListDictionary_Contains w4 (thread t)
                          then thread_launcher_exit cfg h a 0
                                 (emit (Pthread_mutex_unlock a M_threadIsReadyMutex)
                                    (emit (WLog WLOG_ERR) w4))
                          else
                            let (unlocked, w5) =
                                  call h (Pthread_mutex_unlock a M_threadIsReadyMutex) w4 in
                            if \<not> unlocked then thread_launcher_exit cfg h a 0 w5
                            else
                              let w6 = emit (Start_routine fkt (lpParameter t)) w5;
                                  (r, hp) = routine h fkt (lpParameter t) (heap w6);
                                  w7 = w6\<lparr>heap := hp\<rparr>
                              in (case r of
                                    None \<Rightarrow> Some w7
                                  | Some rc \<Rightarrow> thread_launcher_exit cfg h a rc w7))))"

text \<open>\<^verbatim>\<open>winpr_StartThread\<close>: the creator's side of the start.  A successful
  \<^verbatim>\<open>pthread_create\<close> writes the new identity into \<^verbatim>\<open>thread->thread\<close>; the spawned thread
  runs \<open>thread_launcher\<close> on the same object.\<close>

definition winpr_StartThread :: "config \<Rightarrow> host \<Rightarrow> nat \<Rightarrow> world \<Rightarrow> (bool \<times> world) option" where
  "winpr_StartThread cfg h a w =
     (case heap w a of
        None \<Rightarrow> None
      | Some t \<Rightarrow>
          Some
            (let w1 = emit Pthread_attr_setdetachstate (emit Pthread_attr_init w);
                 w2 = (if dwStackSize t > 0 then emit (Pthread_attr_setstacksize (dwStackSize t)) w1
                       else w1);
                 w3 = store a F_started (\<lambda>t. t\<lparr>started := True\<rparr>) w2;
                 (_, w4) = reset_event h a w3;
                 (locked, w5) = call h (Pthread_mutex_lock a M_threadReadyMutex) w4
             in if \<not> locked then (False, emit Pthread_attr_destroy w5)
                else
                  let (added, w6) =
                        (if WITH_THREAD_LIST cfg then ListDictionary_Add h a w5 else (True, w5)) in
                  if \<not> added
                  then (False, emit Pthread_attr_destroy
                                 (emit (Pthread_mutex_unlock a M_threadReadyMutex)
                                    (emit (WLog WLOG_ERR) w6)))
                  else
                    let (spawned, w7) = call h (Pthread_create a) w6 in
                    if \<not> spawned
                    then (False, emit Pthread_attr_destroy
                                   (emit (Pthread_mutex_unlock a M_threadReadyMutex) w7))
                    else
                      let w8 = upd a (\<lambda>t. t\<lparr>thread := new_thread h\<rparr>) w7;
                          w9 = emit (Pthread_cond_timedwait a C_threadReady M_threadReadyMutex 1) w8;
                          (unlocked, w10) = call h (Pthread_mutex_unlock a M_threadReadyMutex) w9
                      in if \<not> unlocked then (False, emit Pthread_attr_destroy w10)
                         else
                           let (signalled, w11) = call h (Pthread_cond_signal a C_threadIsReady) w10
                           in if \<not> signalled
                              then (False, emit Pthread_attr_destroy (emit (WLog WLOG_ERR) w11))
                              else (True, emit Pthread_attr_destroy w11)))"

text \<open>The initialisations of \<^verbatim>\<open>CreateThread\<close> are called in turn; the first that fails
  is logged and ends the sequence (\<^verbatim>\<open>goto fail\<close>).\<close>

fun init_all :: "host \<Rightarrow> event list \<Rightarrow> world \<Rightarrow> bool \<times> world" where
  "init_all h [] w = (True, w)"
| "init_all h (e # es) w =
     (let (ok, w1) = call h e w
      in if ok then init_all h es w1 else (False, emit (WLog WLOG_ERR) w1))"

text \<open>Memory as \<^verbatim>\<open>calloc\<close> returns it.\<close>

definition zeroed :: WINPR_THREAD where
  "zeroed =
     \<lparr>Type = HANDLE_TYPE_NONE, started = False, exited = False, detached = False,
      joined = False, dwStackSize = 0, lpParameter = 0, lpStartAddress = None,
      lpThreadAttributes = 0, dwExitCode = 0, thread = 0, event = False, apc = []\<rparr>"

text \<open>Modelled from the spec: the flag \<^verbatim>\<open>CREATE_SUSPENDED\<close> of winpr/thread.h (not in this
  file), the spec's \<open>suspendedFlag\<close>; it is one bit of \<^verbatim>\<open>dwCreationFlags\<close>.\<close>

definition CREATE_SUSPENDED :: DWORD where
  "CREATE_SUSPENDED = 4"

definition CreateThread ::
  "config \<Rightarrow> host \<Rightarrow> nat \<Rightarrow> nat \<Rightarrow> nat option \<Rightarrow> nat \<Rightarrow> DWORD \<Rightarrow> world
     \<Rightarrow> (HANDLE \<times> world) option" where
  "CreateThread cfg h attrs stack start param flags w =
     (let (allocated, w0) = call h (Calloc A_WINPR_THREAD) w in
      if \<not> allocated then Some (NULL, w0)
      else
        let a = next_block w0;
            w1 = w0\<lparr>heap := (heap w0)(a \<mapsto>
                        zeroed\<lparr>dwStackSize := stack, lpParameter := param,
                               lpStartAddress := start, lpThreadAttributes := attrs\<rparr>),
                    next_block := Suc a\<rparr>;
            (inited, w2) =
              init_all h
                [Winpr_event_init a, Pthread_mutex_init a M_mutex, Apc_init a,
                 Pthread_mutex_init a M_threadIsReadyMutex,
                 Pthread_mutex_init a M_threadReadyMutex,
                 Pthread_cond_init a C_threadIsReady, Pthread_cond_init a C_threadReady] w1
        in if \<not> inited then map_option (Pair NULL) (cleanup_handle cfg h (Some a) w2)
           else
             let w3 = InitOnceExecuteOnce cfg h
                        (upd a (\<lambda>t. t\<lparr>Type := HANDLE_TYPE_THREAD\<rparr>) w2) in
             if flags AND CREATE_SUSPENDED = 0 then
               (case winpr_StartThread cfg h a w3 of
                  None \<Rightarrow> None
                | Some (ok, w4) \<Rightarrow>
                    if \<not> ok then map_option (Pair NULL) (cleanup_handle cfg h (Some a) w4)
                    else Some (Ptr a, w4))
             else
               (let (ok, w4) = set_event h a w3
                in if \<not> ok then map_option (Pair NULL) (cleanup_handle cfg h (Some a) w4)
                   else Some (Ptr a, w4)))"



text \<open>\<^verbatim>\<open>ExitThread\<close> returns to its caller when the file is built without the thread
  list, and ends the calling thread with \<^verbatim>\<open>pthread_exit\<close> otherwise.\<close>

datatype control = Returned | Thread_ended

definition ExitThread :: "config \<Rightarrow> host \<Rightarrow> DWORD \<Rightarrow> world \<Rightarrow> (control \<times> world) option" where
  "ExitThread cfg h code w =
     (if \<not> WITH_THREAD_LIST cfg then Some (Returned, w)
      else if thread_list w = None
      then Some (Thread_ended, emit (Pthread_exit 0) (emit (WLog WLOG_ERR) w))
      else if \<not> ListDictionary_Contains w (pthread_self h)
      then Some (Thread_ended, emit (Pthread_exit 0) (emit (WLog WLOG_ERR) w))
      else
        (case ListDictionary_GetItemValue w (pthread_self h) of
           None \<Rightarrow> None
         | Some a \<Rightarrow>
             (case heap w a of
                None \<Rightarrow> None
              | Some t \<Rightarrow>
                  let w1 = emit List_lock w;
                      w2 = store a F_exited (\<lambda>t. t\<lparr>exited := True\<rparr>) w1;
                      w3 = store a F_dwExitCode (\<lambda>t. t\<lparr>dwExitCode := code\<rparr>) w2;
                      w4 = emit List_unlock w3;
                      (_, w5) = set_event h a w4;
                      rc = code
                      \<comment> \<open>\<^verbatim>\<open>rc = thread->dwExitCode\<close>, the value stored two lines above\<close>
                  in if detached t \<or> \<not> started t
                     then map_option (\<lambda>w. (Thread_ended, emit (Pthread_exit rc) w))
                            (cleanup_handle cfg h (Some a) w5)
                     else Some (Thread_ended, emit (Pthread_exit rc) w5))))"

text \<open>\<^verbatim>\<open>GetExitCodeThread\<close>: the flag it returns and what it wrote to \<^verbatim>\<open>*lpExitCode\<close>, if
  anything.\<close>

definition GetExitCodeThread :: "HANDLE \<Rightarrow> world \<Rightarrow> (bool \<times> DWORD option) option" where
  "GetExitCodeThread hThread w =
     (case winpr_Handle_GetInfo hThread w of
        Dangling \<Rightarrow> None
      | Rejected \<Rightarrow> Some (False, None)
      | Info ty a \<Rightarrow>
          (case heap w a of
             None \<Rightarrow> None
           | Some t \<Rightarrow> Some (True, Some (dwExitCode t))))"

text \<open>\<^verbatim>\<open>userAPC\<close>, the completion hook of a queued item: the only place where a user's
  callback is called.\<close>

definition userAPC :: "UserApcItem \<Rightarrow> world \<Rightarrow> UserApcItem \<times> world" where
  "userAPC item w =
     (item\<lparr>markedForRemove := True\<rparr>,
      emit (Apc_routine (completion item) (completionArg item)) w)"

definition QueueUserAPC :: "host \<Rightarrow> nat option \<Rightarrow> HANDLE \<Rightarrow> nat \<Rightarrow> world \<Rightarrow> (DWORD \<times> world) option" where
  "QueueUserAPC h pfnAPC hThread dwData w =
     (case pfnAPC of
        None \<Rightarrow> Some (1, w)
      | Some f \<Rightarrow>
          (case winpr_Handle_GetInfo hThread w of
             Dangling \<Rightarrow> None
           | Rejected \<Rightarrow> Some (0, SetLastError ERROR_INVALID_PARAMETER (emit (WLog WLOG_ERR) w))
           | Info ty a \<Rightarrow>
               if ty \<noteq> HANDLE_TYPE_THREAD
               then Some (0, SetLastError ERROR_INVALID_PARAMETER (emit (WLog WLOG_ERR) w))
               else
                 let (allocated, w1) = call h (Calloc A_UserApcItem) w in
                 if \<not> allocated then Some (0, SetLastError ERROR_INVALID_PARAMETER w1)
                 else
                   Some (1,
                     apc_register a
                       \<lparr>apc_item_type = APC_TYPE_USER, markedForFree = True,
                        alwaysSignaled = True, markedForRemove = False,
                        completion = f, completionArg = dwData\<rparr> w1)))"

definition ResumeThread :: "config \<Rightarrow> host \<Rightarrow> HANDLE \<Rightarrow> world \<Rightarrow> (DWORD \<times> world) option" where
  "ResumeThread cfg h hThread w =
     (case winpr_Handle_GetInfo hThread w of
        Dangling \<Rightarrow> None
      | Rejected \<Rightarrow> Some (- 1, w)
      | Info ty a \<Rightarrow>
          (case heap w a of
             None \<Rightarrow> None
           | Some t \<Rightarrow>
               let (locked, w1) = call h (Pthread_mutex_lock a M_mutex) w in
               if \<not> locked then Some (- 1, w1)
               else if \<not> started t then
                 (case winpr_StartThread cfg h a w1 of
                    None \<Rightarrow> None
                  | Some (ok, w2) \<Rightarrow>
                      if \<not> ok then Some (- 1, emit (Pthread_mutex_unlock a M_mutex) w2)
                      else
                        (let (unlocked, w3) = call h (Pthread_mutex_unlock a M_mutex) w2
                         in if \<not> unlocked then Some (- 1, w3) else Some (0, w3)))
               else
                 (let w2 = emit (WLog WLOG_WARN) w1;
                      (unlocked, w3) = call h (Pthread_mutex_unlock a M_mutex) w2
                  in if \<not> unlocked then Some (- 1, w3) else Some (0, w3))))"

definition SuspendThread :: "HANDLE \<Rightarrow> world \<Rightarrow> DWORD \<times> world" where
  "SuspendThread hThread w =
     (- 1, SetLastError ERROR_CALL_NOT_IMPLEMENTED (emit (WLog WLOG_ERR) w))"

definition TerminateThread ::
  "config \<Rightarrow> host \<Rightarrow> HANDLE \<Rightarrow> DWORD \<Rightarrow> world \<Rightarrow> (bool \<times> world) option" where
  "TerminateThread cfg h hThread code w =
     (case winpr_Handle_GetInfo hThread w of
        Dangling \<Rightarrow> None
      | Rejected \<Rightarrow> Some (False, w)
      | Info ty a \<Rightarrow>
          (case heap w a of
             None \<Rightarrow> None
           | Some t \<Rightarrow>
               let w1 = store a F_exited (\<lambda>t. t\<lparr>exited := True\<rparr>) w;
                   w2 = store a F_dwExitCode (\<lambda>t. t\<lparr>dwExitCode := code\<rparr>) w1;
                   (locked, w3) = call h (Pthread_mutex_lock a M_mutex) w2
               in if \<not> locked then Some (False, w3)
                  else
                    let w4 = (if \<not> ANDROID cfg then emit (Pthread_cancel (thread t)) w3
                              else emit (WLog WLOG_ERR) w3);
                        (unlocked, w5) = call h (Pthread_mutex_unlock a M_mutex) w4
                    in if \<not> unlocked then Some (False, w5)
                       else Some (True, snd (set_event h a w5))))"

subsection \<open>Reading a trace\<close>

text \<open>The events a call added to the log.\<close>

definition events_since :: "world \<Rightarrow> world \<Rightarrow> event list" where
  "events_since w w' = drop (length (trace w)) (trace w')"

text \<open>The mutexes held at each event that satisfies \<open>P\<close>, reading the trace from the
  left: a lock adds its mutex, an unlock removes it.\<close>

fun held_at :: "(event \<Rightarrow> bool) \<Rightarrow> (nat \<times> mutex_id) list \<Rightarrow> event list
                 \<Rightarrow> (nat \<times> mutex_id) list list" where
  "held_at P held [] = []"
| "held_at P held (e # es) =
     (if P e then [held] else []) @
     held_at P
       (case e of
          Pthread_mutex Mx_lock a m \<Rightarrow> (a, m) # held
        | Pthread_mutex Mx_unlock a m \<Rightarrow> remove1 (a, m) held
        | _ \<Rightarrow> held) es"

definition is_flag_store :: "nat \<Rightarrow> event \<Rightarrow> bool" where
  "is_flag_store a e = (e = Store a F_exited \<or> e = Store a F_dwExitCode)"

definition is_cancel :: "event \<Rightarrow> bool" where
  "is_cancel e = (case e of Pthread Th_cancel _ \<Rightarrow> True | _ \<Rightarrow> False)"

text \<open>Every write of the exited flag or the exit code of the object at \<open>a\<close> is made
  while the object's mutex is held; every cancellation request is made while no mutex
  is held.\<close>

definition flag_updates_under_mutex :: "nat \<Rightarrow> event list \<Rightarrow> bool" where
  "flag_updates_under_mutex a tr =
     list_all (\<lambda>held. (a, M_mutex) \<in> set held) (held_at (is_flag_store a) [] tr)"

definition cancel_outside_locks :: "event list \<Rightarrow> bool" where
  "cancel_outside_locks tr = list_all (\<lambda>held. held = []) (held_at is_cancel [] tr)"

text \<open>The events that give a part of a thread object back: the callback queue, a
  condition variable, a mutex, the signal latch, the memory.\<close>

definition is_release :: "event \<Rightarrow> bool" where
  "is_release e =
     (case e of
        Apc Ap_uninit _ \<Rightarrow> True
      | Pthread_cond Cv_destroy _ _ \<Rightarrow> True
      | Pthread_mutex Mx_destroy _ _ \<Rightarrow> True
      | Winpr_event Lt_uninit _ \<Rightarrow> True
      | Free _ \<Rightarrow> True
      | _ \<Rightarrow> False)"

text \<open>What \<open>destroy_logged\<close> adds to the log, and whether an event is the call of a start
  routine.\<close>

definition logged :: "host \<Rightarrow> event \<Rightarrow> event list" where
  "logged h e = (if succeeds h e then [e] else [e, WLog WLOG_ERR])"

definition is_start :: "event \<Rightarrow> bool" where
  "is_start e = (case e of Start_routine _ _ \<Rightarrow> True | _ \<Rightarrow> False)"

text \<open>\<open>x\<close> occurs in the trace and \<open>y\<close> occurs after its first occurrence.\<close>

definition occurs_before :: "event \<Rightarrow> event \<Rightarrow> event list \<Rightarrow> bool" where
  "occurs_before x y tr = (y \<in> set (dropWhile (\<lambda>e. e \<noteq> x) tr))"

text \<open>The order of releases as the specification words it: the object's mutex, then the
  rendezvous condition variables, then the signal latch, then the callback queue.\<close>

definition specified_release_order :: "nat \<Rightarrow> event list \<Rightarrow> bool" where
  "specified_release_order a tr =
     (occurs_before (Pthread_mutex_destroy a M_mutex) (Pthread_cond_destroy a C_threadIsReady) tr \<and>
      occurs_before (Pthread_mutex_destroy a M_mutex) (Pthread_cond_destroy a C_threadReady) tr \<and>
      occurs_before (Pthread_cond_destroy a C_threadIsReady) (Winpr_event_uninit a) tr \<and>
      occurs_before (Pthread_cond_destroy a C_threadReady) (Winpr_event_uninit a) tr \<and>
      occurs_before (Winpr_event_uninit a) (Apc_uninit a) tr)"

text \<open>The object \<open>CreateThread\<close> has built when its initialisations are done, the
  initialisations in their order, and the events \<open>initializeThreads\<close> can add.\<close>

definition created :: "nat \<Rightarrow> nat \<Rightarrow> nat option \<Rightarrow> nat \<Rightarrow> WINPR_THREAD" where
  "created attrs stack start param =
     zeroed\<lparr>Type := HANDLE_TYPE_THREAD, dwStackSize := stack, lpParameter := param,
            lpStartAddress := start, lpThreadAttributes := attrs\<rparr>"

definition create_inits :: "nat \<Rightarrow> event list" where
  "create_inits a =
     [Winpr_event_init a, Pthread_mutex_init a M_mutex, Apc_init a,
      Pthread_mutex_init a M_threadIsReadyMutex, Pthread_mutex_init a M_threadReadyMutex,
      Pthread_cond_init a C_threadIsReady, Pthread_cond_init a C_threadReady]"

definition init_events :: "event set" where
  "init_events = {Apc_init_mainThread, Tls_alloc, List_new, WLog WLOG_ERR}"


subsection \<open>Sample builds, hosts and worlds\<close>

definition default_build :: config where
  "default_build = \<lparr>WITH_THREAD_LIST = False, ANDROID = False\<rparr>"

definition thread_list_build :: config where
  "thread_list_build = \<lparr>WITH_THREAD_LIST = True, ANDROID = False\<rparr>"

text \<open>A host on which every call succeeds and every start routine returns 42 without
  touching a thread object.\<close>

definition host_ok :: host where
  "host_ok = \<lparr>succeeds = (\<lambda>_. True), pthread_self = 9, new_thread = 9,
              routine = (\<lambda>f p hp. (Some 42, hp))\<rparr>"

text \<open>A host on which every call fails.\<close>

definition host_failing :: host where
  "host_failing = \<lparr>succeeds = (\<lambda>_. False), pthread_self = 9, new_thread = 9,
                   routine = (\<lambda>f p hp. (Some 42, hp))\<rparr>"


definition empty_world :: world where
  "empty_world =
     \<lparr>heap = Map.empty, next_block = 0, thread_list = None, threads_InitOnce = False,
      mainThreadId = None, last_error = ERROR_SUCCESS, trace = []\<rparr>"

text \<open>A started thread at address 0 with one callback queued, and the same object
  before it was started.\<close>

definition queued_item :: UserApcItem where
  "queued_item =
     \<lparr>apc_item_type = APC_TYPE_USER, markedForFree = True, alwaysSignaled = True,
      markedForRemove = False, completion = 200, completionArg = 3\<rparr>"

definition running_thread :: WINPR_THREAD where
  "running_thread =
     zeroed\<lparr>Type := HANDLE_TYPE_THREAD, started := True, lpStartAddress := Some 100,
            lpParameter := 5, thread := 9, apc := [queued_item]\<rparr>"

definition pending_thread :: WINPR_THREAD where
  "pending_thread =
     zeroed\<lparr>Type := HANDLE_TYPE_THREAD, lpStartAddress := Some 100, lpParameter := 5,
            event := True\<rparr>"

definition world_of :: "WINPR_THREAD \<Rightarrow> nat list option \<Rightarrow> world" where
  "world_of t l =
     \<lparr>heap = [0 \<mapsto> t], next_block = 1, thread_list = l, threads_InitOnce = True,
      mainThreadId = Some 1, last_error = ERROR_SUCCESS, trace = []\<rparr>"

section \<open>Properties\<close>

lemmas steps = emit_def call_def upd_def store_def SetLastError_def

subsection \<open>What each function does to the heap and the log\<close>

lemma events_since_app: "trace w' = trace w @ es \<Longrightarrow> events_since w w' = es"
  by (simp add: events_since_def)

lemma destroy_logged_trace: "trace (destroy_logged h e w) = trace w @ logged h e"
  by (simp add: destroy_logged_def logged_def steps)

lemma destroy_logged_heap: "heap (destroy_logged h e w) = heap w"
  by (simp add: destroy_logged_def steps)

lemma ListDictionary_Remove_trace: "trace (ListDictionary_Remove a w) = trace w @ [List_remove a]"
  by (simp add: ListDictionary_Remove_def steps Let_def split: option.splits)

lemma ListDictionary_Remove_heap: "heap (ListDictionary_Remove a w) = heap w"
  by (simp add: ListDictionary_Remove_def steps Let_def split: option.splits)

lemma cleanup_handle_live:
  assumes "heap w a = Some t"
  shows "\<exists>w'. cleanup_handle cfg h (Some a) w = Some w' \<and>
              heap w' = (heap w)(a := None) \<and>
              trace w' = trace w @ logged h (Apc_uninit a)
                @ logged h (Pthread_cond_destroy a C_threadIsReady)
                @ logged h (Pthread_cond_destroy a C_threadReady)
                @ logged h (Pthread_mutex_destroy a M_threadIsReadyMutex)
                @ logged h (Pthread_mutex_destroy a M_threadReadyMutex)
                @ logged h (Pthread_mutex_destroy a M_mutex)
                @ [Winpr_event_uninit a]
                @ (if WITH_THREAD_LIST cfg then [List_remove a] else [])
                @ [Free a]"
  using assms
  by (simp add: cleanup_handle_def Let_def destroy_logged_trace destroy_logged_heap
        ListDictionary_Remove_trace ListDictionary_Remove_heap emit_def)

lemma filter_release_logged:
  "is_release e \<Longrightarrow> filter is_release (logged h e) = [e]"
  by (simp add: logged_def is_release_def)

lemma filter_start_logged: "\<not> is_start e \<Longrightarrow> filter is_start (logged h e) = []"
  by (simp add: logged_def is_start_def)

lemma set_event_trace: "trace (snd (set_event h a w)) = trace w @ [Winpr_event_set a]"
  by (simp add: set_event_def winpr_event_set_def steps)

lemma set_event_heap:
  "heap (snd (set_event h a w))
     = (if succeeds h (Winpr_event_set a)
        then (heap w)(a := map_option (\<lambda>t. t\<lparr>event := True\<rparr>) (heap w a)) else heap w)"
  by (simp add: set_event_def winpr_event_set_def steps)

lemma set_event_fst: "fst (set_event h a w) = succeeds h (Winpr_event_set a)"
  by (simp add: set_event_def winpr_event_set_def steps)

lemma reset_event_trace: "trace (snd (reset_event h a w)) = trace w @ [Winpr_event_reset a]"
  by (simp add: reset_event_def winpr_event_reset_def steps)

lemma reset_event_heap:
  "heap (snd (reset_event h a w))
     = (if succeeds h (Winpr_event_reset a)
        then (heap w)(a := map_option (\<lambda>t. t\<lparr>event := False\<rparr>) (heap w a)) else heap w)"
  by (simp add: reset_event_def winpr_event_reset_def steps)

lemma reset_event_list: "thread_list (snd (reset_event h a w)) = thread_list w"
  by (simp add: reset_event_def winpr_event_reset_def steps)

lemma cleanup_handle_no_start:
  assumes "cleanup_handle cfg h (Some a) w = Some w'"
  shows "heap w' = (heap w)(a := None) \<and> (\<exists>es. trace w' = trace w @ es \<and> filter is_start es = [])"
proof -
  from assms obtain t where live: "heap w a = Some t"
    by (auto simp add: cleanup_handle_def split: option.splits)
  from cleanup_handle_live [OF live, of cfg h] assms
  show ?thesis
    by (auto simp add: filter_start_logged is_start_def)
qed

text \<open>The exit block of the launcher, the launcher, and the creator's side.\<close>

lemma thread_launcher_exit_keeps:
  assumes "heap w a = Some t" and "\<not> detached t" and "started t"
  shows "\<exists>w'. thread_launcher_exit cfg h a rc w = Some w' \<and>
              heap w' a = Some (t\<lparr>apc := [],
                                  dwExitCode := (if exited t then dwExitCode t else rc),
                                  event := (succeeds h (Winpr_event_set a) \<or> event t)\<rparr>) \<and>
              trace w' = trace w @ [Apc_cleanupThread a]
                @ (if exited t then [] else [Store a F_dwExitCode])
                @ [Winpr_event_set a, Pthread_cond_signal a C_threadReady]"
  using assms
  by (simp add: thread_launcher_exit_def apc_cleanupThread_def Let_def split_def
        set_event_trace set_event_heap steps)

lemma thread_launcher_exit_no_start:
  assumes "thread_launcher_exit cfg h a rc w = Some w'"
  shows "\<exists>es. trace w' = trace w @ es \<and> filter is_start es = []"
proof -
  from assms obtain t where live: "heap w a = Some t"
    by (auto simp add: thread_launcher_exit_def split: option.splits)
  show ?thesis
  proof (cases "detached t \<or> \<not> started t")
    case False
    with thread_launcher_exit_keeps [OF live, of cfg h rc] assms show ?thesis
      by (auto simp add: is_start_def)
  next
    case True
    with assms live
    have "cleanup_handle cfg h (Some a)
            (emit (Pthread_cond_signal a C_threadReady)
               (snd (set_event h a
                  (if \<not> exited t
                   then store a F_dwExitCode (\<lambda>t. t\<lparr>dwExitCode := rc\<rparr>) (apc_cleanupThread a w)
                   else apc_cleanupThread a w)))) = Some w'"
      by (simp add: thread_launcher_exit_def Let_def split_def)
    from cleanup_handle_no_start [OF this]
    show ?thesis
      by (auto simp add: set_event_trace apc_cleanupThread_def steps is_start_def)
  qed
qed

lemma no_start_mem [simp]: "filter is_start es = [] \<Longrightarrow> (Start_routine f p \<in> set es) = False"
  by (auto simp add: filter_empty_conv is_start_def)

lemma key_of_emit [simp]: "key_of (emit e w) = key_of w"
  by (rule ext) (simp add: key_of_def emit_def)

lemma thread_list_emit [simp]: "thread_list (emit e w) = thread_list w"
  by (simp add: emit_def)

lemma ListDictionary_Contains_emit [simp]:
  "ListDictionary_Contains (emit e w) k = ListDictionary_Contains w k"
  by (simp add: ListDictionary_Contains_def split: option.splits)

lemma heap_emit [simp]: "heap (emit e w) = heap w"
  by (simp add: emit_def)

lemma trace_emit [simp]: "trace (emit e w) = trace w @ [e]"
  by (simp add: emit_def)

lemma thread_launcher_order:
  assumes run: "thread_launcher cfg h (Some a) w = Some w'"
    and called: "Start_routine f p \<in> set (events_since w w')"
  shows "\<exists>es. events_since w w'
                = [Tls_set_value a, Pthread_mutex_lock a M_threadIsReadyMutex,
                   Pthread_cond_signal a C_threadReady,
                   Pthread_cond_timedwait a C_threadIsReady M_threadIsReadyMutex 1,
                   Pthread_mutex_unlock a M_threadIsReadyMutex, Start_routine f p] @ es \<and>
              filter is_start es = []"
proof -
  from run obtain t where live: "heap w a = Some t"
    by (auto simp add: thread_launcher_def split: option.splits)
  show ?thesis
    using run called live
    apply (simp add: thread_launcher_def Let_def split_def call_def
             split: if_splits option.splits)
    apply (auto dest!: thread_launcher_exit_no_start simp add: events_since_def)
    done
qed

lemma thread_launcher_runs:
  assumes live: "heap w a = Some t"
    and fn: "lpStartAddress t = Some f"
    and ok: "succeeds h (Tls_set_value a)"
      "succeeds h (Pthread_mutex_lock a M_threadIsReadyMutex)"
      "succeeds h (Pthread_cond_signal a C_threadReady)"
      "succeeds h (Pthread_mutex_unlock a M_threadIsReadyMutex)"
    and listed: "WITH_THREAD_LIST cfg \<longrightarrow> ListDictionary_Contains w (thread t)"
    and ret: "routine h f (lpParameter t) (heap w) = (Some rc, hp)"
    and after: "hp a = Some t'" "\<not> detached t'" "started t'"
  shows "\<exists>w'. thread_launcher cfg h (Some a) w = Some w' \<and>
              heap w' a = Some (t'\<lparr>apc := [],
                                   dwExitCode := (if exited t' then dwExitCode t' else rc),
                                   event := (succeeds h (Winpr_event_set a) \<or> event t')\<rparr>) \<and>
              trace w'
                = trace w @ [Tls_set_value a, Pthread_mutex_lock a M_threadIsReadyMutex,
                   Pthread_cond_signal a C_threadReady,
                   Pthread_cond_timedwait a C_threadIsReady M_threadIsReadyMutex 1,
                   Pthread_mutex_unlock a M_threadIsReadyMutex,
                   Start_routine f (lpParameter t), Apc_cleanupThread a]
                  @ (if exited t' then [] else [Store a F_dwExitCode])
                  @ [Winpr_event_set a, Pthread_cond_signal a C_threadReady]"
proof -
  let ?w7 = "(emit (Start_routine f (lpParameter t))
               (emit (Pthread_mutex_unlock a M_threadIsReadyMutex)
                 (emit (Pthread_cond_timedwait a C_threadIsReady M_threadIsReadyMutex 1)
                   (emit (Pthread_cond_signal a C_threadReady)
                     (emit (Pthread_mutex_lock a M_threadIsReadyMutex)
                       (emit (Tls_set_value a) w))))))\<lparr>heap := hp\<rparr>"
  have eq: "thread_launcher cfg h (Some a) w = thread_launcher_exit cfg h a rc ?w7"
    using live fn ok listed ret
    by (auto simp add: thread_launcher_def Let_def call_def)
  have "heap ?w7 a = Some t'"
    using after by simp
  from thread_launcher_exit_keeps [OF this after(2,3), of cfg h rc]
  show ?thesis
    unfolding eq by auto
qed

lemma emit_fields [simp]:
  "next_block (emit e w) = next_block w"
  "threads_InitOnce (emit e w) = threads_InitOnce w"
  "last_error (emit e w) = last_error w"
  "mainThreadId (emit e w) = mainThreadId w"
  by (simp_all add: emit_def)

lemma ListDictionary_Add_simps:
  "trace (snd (ListDictionary_Add h a w)) = trace w @ [List_add a]"
  "heap (snd (ListDictionary_Add h a w)) = heap w"
  "fst (ListDictionary_Add h a w) = (succeeds h (List_add a) \<and> thread_list w \<noteq> None)"
  "thread_list (snd (ListDictionary_Add h a w))
     = (if succeeds h (List_add a) then map_option (\<lambda>l. l @ [a]) (thread_list w)
        else thread_list w)"
  by (auto simp add: ListDictionary_Add_def call_def split: option.splits)

lemma winpr_StartThread_success:
  assumes ret: "winpr_StartThread cfg h a w = Some (True, w')"
    and live: "heap w a = Some t"
  shows "heap w' = (heap w)(a \<mapsto> t\<lparr>started := True,
                                      event := (\<not> succeeds h (Winpr_event_reset a) \<and> event t),
                                      thread := new_thread h\<rparr>) \<and>
         trace w'
           = trace w @ [Pthread_attr_init, Pthread_attr_setdetachstate]
             @ (if dwStackSize t > 0 then [Pthread_attr_setstacksize (dwStackSize t)] else [])
             @ [Store a F_started, Winpr_event_reset a, Pthread_mutex_lock a M_threadReadyMutex]
             @ (if WITH_THREAD_LIST cfg then [List_add a] else [])
             @ [Pthread_create a,
                Pthread_cond_timedwait a C_threadReady M_threadReadyMutex 1,
                Pthread_mutex_unlock a M_threadReadyMutex,
                Pthread_cond_signal a C_threadIsReady, Pthread_attr_destroy] \<and>
         thread_list w'
           = (if WITH_THREAD_LIST cfg then map_option (\<lambda>l. l @ [a]) (thread_list w)
              else thread_list w) \<and>
         (WITH_THREAD_LIST cfg \<longrightarrow> thread_list w \<noteq> None) \<and>
         next_block w' = next_block w"
  using ret live
  apply (simp add: winpr_StartThread_def Let_def split_def call_def store_def upd_def
           reset_event_trace reset_event_heap reset_event_list ListDictionary_Add_simps
           split: if_splits)
  apply (auto simp add: fun_eq_iff reset_event_def winpr_event_reset_def call_def upd_def
           ListDictionary_Add_def split: option.splits if_splits)
  done

lemma init_all_fields:
  "heap (snd (init_all h es w)) = heap w"
  "next_block (snd (init_all h es w)) = next_block w"
  "thread_list (snd (init_all h es w)) = thread_list w"
  "threads_InitOnce (snd (init_all h es w)) = threads_InitOnce w"
  by (induction es arbitrary: w; simp add: call_def Let_def)+

lemma init_all_trace:
  "fst (init_all h es w) \<Longrightarrow> trace (snd (init_all h es w)) = trace w @ es"
  by (induction es arbitrary: w) (simp_all add: call_def Let_def split: if_splits)

lemma InitOnceExecuteOnce_fields:
  "heap (InitOnceExecuteOnce cfg h w) = heap w"
  "next_block (InitOnceExecuteOnce cfg h w) = next_block w"
  by (simp_all add: InitOnceExecuteOnce_def initializeThreads_def Let_def split_def call_def)

lemma InitOnceExecuteOnce_trace:
  "\<exists>es. trace (InitOnceExecuteOnce cfg h w) = trace w @ es \<and> set es \<subseteq> init_events"
  by (simp add: InitOnceExecuteOnce_def initializeThreads_def Let_def split_def call_def
        init_events_def)

lemma InitOnceExecuteOnce_list:
  "\<not> WITH_THREAD_LIST cfg \<Longrightarrow> thread_list (InitOnceExecuteOnce cfg h w) = thread_list w"
  by (simp add: InitOnceExecuteOnce_def initializeThreads_def Let_def split_def call_def)

lemma CreateThread_prepared:
  assumes "CreateThread cfg h attrs stack start param flags w = Some (Ptr a, w')"
  shows "\<exists>w3 es. a = next_block w \<and>
           heap w3 = (heap w)(a \<mapsto> created attrs stack start param) \<and>
           next_block w3 = Suc a \<and>
           trace w3 = trace w @ Calloc A_WINPR_THREAD # create_inits a @ es \<and>
           set es \<subseteq> init_events \<and>
           (\<not> WITH_THREAD_LIST cfg \<longrightarrow> thread_list w3 = thread_list w) \<and>
           (if flags AND CREATE_SUSPENDED = 0
            then winpr_StartThread cfg h a w3 = Some (True, w')
            else succeeds h (Winpr_event_set a) \<and> w' = snd (set_event h a w3))"
proof -
  let ?a = "next_block w"
  let ?w1 = "(emit (Calloc A_WINPR_THREAD) w)
              \<lparr>heap := (heap w)(?a \<mapsto>
                  zeroed\<lparr>dwStackSize := stack, lpParameter := param,
                         lpStartAddress := start, lpThreadAttributes := attrs\<rparr>),
               next_block := Suc ?a\<rparr>"
  let ?w2 = "snd (init_all h (create_inits ?a) ?w1)"
  let ?w3 = "InitOnceExecuteOnce cfg h (upd ?a (\<lambda>t. t\<lparr>Type := HANDLE_TYPE_THREAD\<rparr>) ?w2)"
  from assms have a: "a = ?a" and inited: "fst (init_all h (create_inits ?a) ?w1)"
    and rest: "if flags AND CREATE_SUSPENDED = 0
               then winpr_StartThread cfg h ?a ?w3 = Some (True, w')
               else succeeds h (Winpr_event_set ?a) \<and> w' = snd (set_event h ?a ?w3)"
    by (auto simp add: CreateThread_def Let_def split_def call_def create_inits_def
          set_event_fst split: if_splits option.splits)
  obtain es where es: "trace ?w3 = trace (upd ?a (\<lambda>t. t\<lparr>Type := HANDLE_TYPE_THREAD\<rparr>) ?w2) @ es"
    "set es \<subseteq> init_events"
    using InitOnceExecuteOnce_trace by blast
  have heap3: "heap ?w3 = (heap w)(?a \<mapsto> created attrs stack start param)"
    by (simp add: InitOnceExecuteOnce_fields upd_def init_all_fields created_def zeroed_def)
  have next3: "next_block ?w3 = Suc ?a"
    by (simp add: InitOnceExecuteOnce_fields upd_def init_all_fields)
  have trace3: "trace ?w3 = trace w @ Calloc A_WINPR_THREAD # create_inits ?a @ es"
    using es(1) init_all_trace [OF inited] by (simp add: upd_def)
  have list3: "\<not> WITH_THREAD_LIST cfg \<longrightarrow> thread_list ?w3 = thread_list w"
    by (simp add: InitOnceExecuteOnce_list upd_def init_all_fields)
  show ?thesis
    using a heap3 next3 trace3 es(2) list3 rest by blast
qed






lemma cleanup_handle_frees:
  assumes "heap w a = Some t"
  shows "\<exists>w' es. cleanup_handle cfg h (Some a) w = Some w' \<and> heap w' a = None \<and>
           trace w' = trace w @ es @ [Free a] \<and> Pthread_detach (thread t) \<notin> set es"
proof -
  from cleanup_handle_live [OF assms, of cfg h]
  obtain w' where ret: "cleanup_handle cfg h (Some a) w = Some w'"
    and gone: "heap w' = (heap w)(a := None)"
    and log: "trace w' = trace w @ (logged h (Apc_uninit a)
                @ logged h (Pthread_cond_destroy a C_threadIsReady)
                @ logged h (Pthread_cond_destroy a C_threadReady)
                @ logged h (Pthread_mutex_destroy a M_threadIsReadyMutex)
                @ logged h (Pthread_mutex_destroy a M_threadReadyMutex)
                @ logged h (Pthread_mutex_destroy a M_mutex)
                @ [Winpr_event_uninit a]
                @ (if WITH_THREAD_LIST cfg then [List_remove a] else []))
                @ [Free a]"
    by auto
  show ?thesis
    apply (rule exI [of _ w'])
    apply (rule exI [of _ "logged h (Apc_uninit a)
                @ logged h (Pthread_cond_destroy a C_threadIsReady)
                @ logged h (Pthread_cond_destroy a C_threadReady)
                @ logged h (Pthread_mutex_destroy a M_threadIsReadyMutex)
                @ logged h (Pthread_mutex_destroy a M_threadReadyMutex)
                @ logged h (Pthread_mutex_destroy a M_mutex)
                @ [Winpr_event_uninit a]
                @ (if WITH_THREAD_LIST cfg then [List_remove a] else [])"])
    using ret gone log by (simp add: logged_def)
qed

lemma GetItemValue_Contains:
  "ListDictionary_GetItemValue w k = Some a
     \<Longrightarrow> thread_list w \<noteq> None \<and> ListDictionary_Contains w k"
  by (auto simp add: ListDictionary_GetItemValue_def ListDictionary_Contains_def
        list_ex_iff find_Some_iff split: option.splits intro: nth_mem)

lemma ResumeThread_starts:
  assumes "ResumeThread cfg h (Ptr a) w = Some (0, w')"
    and "heap w a = Some t" and "\<not> started t"
  shows "\<exists>w1. winpr_StartThread cfg h a (emit (Pthread_mutex_lock a M_mutex) w) = Some (True, w1) \<and>
              w' = emit (Pthread_mutex_unlock a M_mutex) w1"
  using assms
  by (auto simp add: ResumeThread_def winpr_Handle_GetInfo_def call_def Let_def
        split: if_splits option.splits)

lemma winpr_StartThread_spawns:
  assumes "winpr_StartThread cfg h a w = Some (True, w')"
  shows "Pthread_create a \<in> set (events_since w w')"
proof -
  from assms obtain t where live: "heap w a = Some t"
    by (auto simp add: winpr_StartThread_def split: option.splits)
  from winpr_StartThread_success [OF assms live] show ?thesis
    by (simp add: events_since_def)
qed

lemma CreateThread_spawns:
  assumes "CreateThread cfg h attrs stack start param flags w = Some (Ptr a, w')"
    and "flags AND CREATE_SUSPENDED = 0"
  shows "Pthread_create a \<in> set (events_since w w')"
proof -
  from CreateThread_prepared [OF assms(1)] assms(2)
  obtain w3 es where pre: "trace w3 = trace w @ Calloc A_WINPR_THREAD # create_inits a @ es"
    and heap3: "heap w3 = (heap w)(a \<mapsto> created attrs stack start param)"
    and start: "winpr_StartThread cfg h a w3 = Some (True, w')"
    by auto
  have "heap w3 a = Some (created attrs stack start param)"
    using heap3 by simp
  from winpr_StartThread_success [OF start this] pre show ?thesis
    by (simp add: events_since_def)
qed

lemma ResumeThread_spawns:
  assumes "ResumeThread cfg h (Ptr a) w = Some (0, w')"
    and "heap w a = Some t" and "\<not> started t"
  shows "Pthread_create a \<in> set (events_since w w')"
proof -
  from ResumeThread_starts [OF assms]
  obtain w1 where start: "winpr_StartThread cfg h a (emit (Pthread_mutex_lock a M_mutex) w)
                            = Some (True, w1)"
    and w': "w' = emit (Pthread_mutex_unlock a M_mutex) w1"
    by blast
  have "heap (emit (Pthread_mutex_lock a M_mutex) w) a = Some t"
    using assms(2) by simp
  from winpr_StartThread_success [OF start this] w' show ?thesis
    by (simp add: events_since_def)
qed

lemma CreateThread_started:
  assumes "CreateThread cfg h attrs stack start param flags w = Some (Ptr a, w')"
    and "flags AND CREATE_SUSPENDED = 0"
  shows "heap w' a = Some ((created attrs stack start param)
                             \<lparr>started := True, thread := new_thread h\<rparr>) \<and>
         (WITH_THREAD_LIST cfg \<longrightarrow> ListDictionary_Contains w' (new_thread h))"
proof -
  from CreateThread_prepared [OF assms(1)] assms(2)
  obtain w3 where heap3: "heap w3 = (heap w)(a \<mapsto> created attrs stack start param)"
    and start: "winpr_StartThread cfg h a w3 = Some (True, w')"
    by auto
  have live3: "heap w3 a = Some (created attrs stack start param)"
    using heap3 by simp
  note s = winpr_StartThread_success [OF start live3]
  have obj: "heap w' a = Some ((created attrs stack start param)
                                 \<lparr>started := True, thread := new_thread h\<rparr>)"
    using s by (simp add: created_def zeroed_def)
  have "ListDictionary_Contains w' (new_thread h)" if "WITH_THREAD_LIST cfg"
    using s that obj
    by (auto simp add: ListDictionary_Contains_def key_of_def)
  with obj show ?thesis by blast
qed



text \<open>On a host where every call succeeds the start, the resume and the creation
  succeed.\<close>

lemma winpr_StartThread_ok:
  assumes "heap w a = Some t" and "\<forall>e. succeeds h e"
    and "WITH_THREAD_LIST cfg \<longrightarrow> thread_list w \<noteq> None"
  shows "\<exists>w'. winpr_StartThread cfg h a w = Some (True, w')"
  using assms
  by (auto simp add: winpr_StartThread_def Let_def split_def call_def
        ListDictionary_Add_simps reset_event_list store_def upd_def emit_def)

lemma ResumeThread_ok:
  assumes "heap w a = Some t" and "\<not> started t" and "\<forall>e. succeeds h e"
    and "WITH_THREAD_LIST cfg \<longrightarrow> thread_list w \<noteq> None"
  shows "\<exists>w'. ResumeThread cfg h (Ptr a) w = Some (0, w')"
proof -
  have "heap (emit (Pthread_mutex_lock a M_mutex) w) a = Some t"
    "WITH_THREAD_LIST cfg \<longrightarrow> thread_list (emit (Pthread_mutex_lock a M_mutex) w) \<noteq> None"
    using assms by simp_all
  from winpr_StartThread_ok [OF this(1) assms(3) this(2)]
  show ?thesis
    using assms
    by (auto simp add: ResumeThread_def winpr_Handle_GetInfo_def call_def Let_def)
qed

lemma init_all_ok: "\<forall>e. succeeds h e \<Longrightarrow> fst (init_all h es w)"
  by (induction es arbitrary: w) (simp_all add: call_def)

lemma CreateThread_ok:
  assumes "\<forall>e. succeeds h e" and "\<not> WITH_THREAD_LIST cfg"
  shows "\<exists>w'. CreateThread cfg h attrs stack start param flags w = Some (Ptr (next_block w), w')"
proof -
  let ?a = "next_block w"
  let ?w1 = "(emit (Calloc A_WINPR_THREAD) w)
              \<lparr>heap := (heap w)(?a \<mapsto>
                  zeroed\<lparr>dwStackSize := stack, lpParameter := param,
                         lpStartAddress := start, lpThreadAttributes := attrs\<rparr>),
               next_block := Suc ?a\<rparr>"
  let ?w2 = "snd (init_all h (create_inits ?a) ?w1)"
  let ?w3 = "InitOnceExecuteOnce cfg h (upd ?a (\<lambda>t. t\<lparr>Type := HANDLE_TYPE_THREAD\<rparr>) ?w2)"
  have live3: "heap ?w3 ?a = Some (created attrs stack start param)"
    by (simp add: InitOnceExecuteOnce_fields upd_def init_all_fields created_def zeroed_def)
  from winpr_StartThread_ok [OF live3 assms(1)] assms(2)
  obtain w' where "winpr_StartThread cfg h ?a ?w3 = Some (True, w')"
    by auto
  then show ?thesis
    using assms(1) init_all_ok [OF assms(1), of "create_inits ?a" ?w1]
    by (auto simp add: CreateThread_def Let_def split_def call_def create_inits_def
          set_event_fst)
qed

lemma host_ok_succeeds: "\<forall>e. succeeds host_ok e"
  by (simp add: host_ok_def)






lemma sample_facts:
  "heap (world_of t l) 0 = Some t"
  "thread_list (world_of t l) = l"
  "started running_thread" "\<not> detached running_thread" "\<not> exited running_thread"
  "\<not> event running_thread"
  "lpStartAddress running_thread = Some 100" "lpParameter running_thread = 5"
  "thread running_thread = 9" "Type running_thread = HANDLE_TYPE_THREAD"
  "\<not> started pending_thread" "event pending_thread"
  "Type pending_thread = HANDLE_TYPE_THREAD"
  "\<not> WITH_THREAD_LIST default_build" "WITH_THREAD_LIST thread_list_build"
  "next_block empty_world = 0"
  "routine host_ok f p hp = (Some 42, hp)"
  by (simp_all add: world_of_def running_thread_def pending_thread_def zeroed_def
        default_build_def thread_list_build_def empty_world_def host_ok_def)



subsection \<open>Suspend and Resume of a started thread\<close>

text \<open>
  Claim C8.  \<open>SuspendThread\<close> fails on every handle: it returns \<^verbatim>\<open>(DWORD)-1\<close>, leaves the
  error \<open>ERROR_CALL_NOT_IMPLEMENTED\<close> in the last-error slot, changes no thread object and
  calls nothing but the logger and \<^verbatim>\<open>SetLastError\<close>.  \<open>ResumeThread\<close> on an object that is
  already started returns 0 and changes neither an object nor the last error: between
  locking and unlocking the object's mutex it only logs a warning.  The host is taken to
  lock and unlock that mutex without error; a failure of either is returned as
  \<^verbatim>\<open>(DWORD)-1\<close> by the code.
\<close>

theorem SuspendThread_not_implemented:
  "fst (SuspendThread hThread w) = - 1 \<and>
   last_error (snd (SuspendThread hThread w)) = ERROR_CALL_NOT_IMPLEMENTED \<and>
   heap (snd (SuspendThread hThread w)) = heap w \<and>
   events_since w (snd (SuspendThread hThread w))
     = [WLog WLOG_ERR, Set_last_error ERROR_CALL_NOT_IMPLEMENTED] \<and>
   (heap w a = Some t \<and> started t \<and> succeeds h (Pthread_mutex_lock a M_mutex) \<and>
    succeeds h (Pthread_mutex_unlock a M_mutex)
      \<longrightarrow> (\<exists>w'. ResumeThread cfg h (Ptr a) w = Some (0, w') \<and> heap w' = heap w \<and>
                last_error w' = last_error w \<and>
                events_since w w'
                  = [Pthread_mutex_lock a M_mutex, WLog WLOG_WARN, Pthread_mutex_unlock a M_mutex]))"
  by (simp add: SuspendThread_def ResumeThread_def winpr_Handle_GetInfo_def steps events_since_def)

theorem SuspendThread_not_implemented_witness:
  "fst (SuspendThread (Ptr 0) (world_of running_thread None)) = - 1 \<and>
   last_error (snd (SuspendThread (Ptr 0) (world_of running_thread None)))
     = ERROR_CALL_NOT_IMPLEMENTED \<and>
   heap (world_of running_thread None) 0 = Some running_thread \<and>
   started running_thread \<and>
   succeeds host_ok (Pthread_mutex_lock 0 M_mutex) \<and>
   succeeds host_ok (Pthread_mutex_unlock 0 M_mutex) \<and>
   (\<exists>w'. ResumeThread default_build host_ok (Ptr 0) (world_of running_thread None) = Some (0, w') \<and>
         heap w' = heap (world_of running_thread None) \<and>
         events_since (world_of running_thread None) w'
           = [Pthread_mutex_lock 0 M_mutex, WLog WLOG_WARN, Pthread_mutex_unlock 0 M_mutex])"
proof -
  have live: "heap (world_of running_thread None) 0 = Some running_thread"
    by (simp add: world_of_def)
  have run: "started running_thread"
    by (simp add: running_thread_def)
  have ok: "succeeds host_ok (Pthread_mutex_lock 0 M_mutex)"
    "succeeds host_ok (Pthread_mutex_unlock 0 M_mutex)"
    by (simp_all add: host_ok_def)
  show ?thesis
    using live run ok
      SuspendThread_not_implemented
        [of "Ptr 0" "world_of running_thread None" 0 running_thread host_ok default_build]
    by auto
qed

subsection \<open>Queueing a callback\<close>

text \<open>
  Claim C10.  With a null callback pointer \<open>QueueUserAPC\<close> returns 1 and leaves the world
  as it was, whatever the handle is (null, dangling, of another kind): no error is set,
  nothing is logged, nothing is queued.  A submission that succeeds returns 1 as well,
  after registering the callback with the target's queue.
\<close>

theorem QueueUserAPC_null_callback:
  "QueueUserAPC h None hThread dwData w = Some (1, w) \<and>
   (heap w a = Some t \<and> Type t = HANDLE_TYPE_THREAD \<and> succeeds h (Calloc A_UserApcItem)
      \<longrightarrow> (\<exists>w'. QueueUserAPC h (Some f) (Ptr a) dwData w = Some (1, w') \<and>
                Apc_register a f dwData \<in> set (events_since w w')))"
  by (simp add: QueueUserAPC_def winpr_Handle_GetInfo_def apc_register_def steps events_since_def)

theorem QueueUserAPC_null_callback_witness:
  "QueueUserAPC host_ok None NULL 3 (world_of running_thread None)
     = Some (1, world_of running_thread None) \<and>
   QueueUserAPC host_ok None (Ptr 77) 3 (world_of running_thread None)
     = Some (1, world_of running_thread None) \<and>
   heap (world_of running_thread None) 0 = Some running_thread \<and>
   Type running_thread = HANDLE_TYPE_THREAD \<and>
   succeeds host_ok (Calloc A_UserApcItem) \<and>
   (\<exists>w'. QueueUserAPC host_ok (Some 200) (Ptr 0) 3 (world_of running_thread None) = Some (1, w') \<and>
         Apc_register 0 200 3 \<in> set (events_since (world_of running_thread None) w'))"
proof -
  have live: "heap (world_of running_thread None) 0 = Some running_thread"
    by (simp add: world_of_def)
  have kind: "Type running_thread = HANDLE_TYPE_THREAD"
    by (simp add: running_thread_def)
  have ok: "succeeds host_ok (Calloc A_UserApcItem)"
    by (simp add: host_ok_def)
  show ?thesis
    using live kind ok
      QueueUserAPC_null_callback
        [of host_ok NULL 3 "world_of running_thread None" 0 running_thread 200]
      QueueUserAPC_null_callback
        [of host_ok "Ptr 77" 3 "world_of running_thread None" 0 running_thread 200]
    by auto
qed

text \<open>
  Claim C9, amended.  A call of \<open>QueueUserAPC\<close> with a callback that is not null, on a
  handle that is null, is \<^verbatim>\<open>INVALID_HANDLE_VALUE\<close> or refers to an object that is not a
  thread, or for which the allocation of the item fails, returns 0 with the last error
  \<open>ERROR_INVALID_PARAMETER\<close>; no thread object changes (so no queue receives the
  callback), nothing is registered and the callback is not called.
\<close>

theorem QueueUserAPC_submission_failure:
  assumes "hThread = NULL \<or> hThread = INVALID_HANDLE_VALUE \<or>
           (\<exists>a t. hThread = Ptr a \<and> heap w a = Some t \<and>
                  (Type t \<noteq> HANDLE_TYPE_THREAD \<or> \<not> succeeds h (Calloc A_UserApcItem)))"
  shows "\<exists>w'. QueueUserAPC h (Some f) hThread dwData w = Some (0, w') \<and>
              last_error w' = ERROR_INVALID_PARAMETER \<and>
              Set_last_error ERROR_INVALID_PARAMETER \<in> set (events_since w w') \<and>
              heap w' = heap w \<and>
              Apc_routine f dwData \<notin> set (events_since w w') \<and>
              (\<forall>b. Apc_register b f dwData \<notin> set (events_since w w'))"
  using assms
  by (auto simp add: QueueUserAPC_def winpr_Handle_GetInfo_def steps events_since_def)

theorem QueueUserAPC_submission_failure_witness:
  "\<exists>w'. QueueUserAPC host_ok (Some 200) NULL 3 (world_of running_thread None) = Some (0, w') \<and>
        last_error w' = ERROR_INVALID_PARAMETER \<and>
        heap w' = heap (world_of running_thread None) \<and>
        Apc_routine 200 3 \<notin> set (events_since (world_of running_thread None) w')"
  using QueueUserAPC_submission_failure
          [of NULL "world_of running_thread None" host_ok 200 3]
  by auto

text \<open>
  The claim as it was stated covers every callback argument.  With a null callback and a
  null handle the handle refers to no thread object, yet the call returns 1 and sets no
  error.
\<close>

theorem QueueUserAPC_submission_failure_counterexample:
  "\<not> (\<exists>w'. QueueUserAPC host_ok None NULL 3 (world_of running_thread None) = Some (0, w') \<and>
            last_error w' = ERROR_INVALID_PARAMETER) \<and>
   winpr_Handle_GetInfo NULL (world_of running_thread None) = Rejected \<and>
   QueueUserAPC host_ok None NULL 3 (world_of running_thread None)
     = Some (1, world_of running_thread None) \<and>
   last_error (world_of running_thread None) = ERROR_SUCCESS"
  by (simp add: QueueUserAPC_def winpr_Handle_GetInfo_def world_of_def)

subsection \<open>Terminate\<close>

text \<open>
  Claim C3, amended.  On a live thread object, with a host that locks and unlocks the
  object's mutex and sets the latch without error, \<open>TerminateThread\<close> returns TRUE and
  leaves the object exited with the given code and its latch set, so that
  \<open>GetExitCodeThread\<close> then returns that code.  The two writes come first, with no
  mutex held; the cancellation request (on a build that has one) is made between the
  lock and the unlock of the object's mutex; the latch is set after the unlock.
\<close>

theorem TerminateThread_marks_exited:
  assumes "heap w a = Some t"
    and "succeeds h (Pthread_mutex_lock a M_mutex)"
    and "succeeds h (Pthread_mutex_unlock a M_mutex)"
    and "succeeds h (Winpr_event_set a)"
  shows "\<exists>w'. TerminateThread cfg h (Ptr a) code w = Some (True, w') \<and>
              heap w' a = Some (t\<lparr>exited := True, dwExitCode := code, event := True\<rparr>) \<and>
              GetExitCodeThread (Ptr a) w' = Some (True, Some code) \<and>
              events_since w w'
                = [Store a F_exited, Store a F_dwExitCode, Pthread_mutex_lock a M_mutex,
                   if ANDROID cfg then WLog WLOG_ERR else Pthread_cancel (thread t),
                   Pthread_mutex_unlock a M_mutex, Winpr_event_set a] \<and>
              held_at (is_flag_store a) [] (events_since w w') = [[], []] \<and>
              (\<not> ANDROID cfg \<longrightarrow> held_at is_cancel [] (events_since w w') = [[(a, M_mutex)]])"
  using assms
  by (simp add: TerminateThread_def GetExitCodeThread_def winpr_Handle_GetInfo_def steps
        set_event_def winpr_event_set_def events_since_def is_flag_store_def is_cancel_def)

theorem TerminateThread_marks_exited_witness:
  "heap (world_of running_thread None) 0 = Some running_thread \<and>
   succeeds host_ok (Pthread_mutex_lock 0 M_mutex) \<and>
   succeeds host_ok (Pthread_mutex_unlock 0 M_mutex) \<and>
   succeeds host_ok (Winpr_event_set 0) \<and>
   (\<exists>w'. TerminateThread default_build host_ok (Ptr 0) 7 (world_of running_thread None)
            = Some (True, w') \<and>
         heap w' 0 = Some (running_thread\<lparr>exited := True, dwExitCode := 7, event := True\<rparr>) \<and>
         GetExitCodeThread (Ptr 0) w' = Some (True, Some 7) \<and>
         events_since (world_of running_thread None) w'
           = [Store 0 F_exited, Store 0 F_dwExitCode, Pthread_mutex_lock 0 M_mutex,
              Pthread_cancel 9, Pthread_mutex_unlock 0 M_mutex, Winpr_event_set 0])"
proof -
  have live: "heap (world_of running_thread None) 0 = Some running_thread"
    by (simp add: world_of_def)
  have ok: "succeeds host_ok (Pthread_mutex_lock 0 M_mutex)"
    "succeeds host_ok (Pthread_mutex_unlock 0 M_mutex)"
    "succeeds host_ok (Winpr_event_set 0)"
    by (simp_all add: host_ok_def)
  have sample: "\<not> ANDROID default_build" "thread running_thread = 9"
    by (simp_all add: default_build_def running_thread_def)
  show ?thesis
    using live ok TerminateThread_marks_exited [OF live ok, of default_build 7]
    by (auto simp add: sample)
qed

text \<open>
  The claim as it was stated puts the writes under the object's mutex and the
  cancellation outside any lock.  On the sample thread both fail: the writes are made
  before the mutex is taken, the cancellation while it is held.
\<close>

theorem TerminateThread_marks_exited_counterexample:
  "\<exists>w'. TerminateThread default_build host_ok (Ptr 0) 7 (world_of running_thread None)
           = Some (True, w') \<and>
        \<not> flag_updates_under_mutex 0 (events_since (world_of running_thread None) w') \<and>
        \<not> cancel_outside_locks (events_since (world_of running_thread None) w')"
  by (simp add: TerminateThread_def winpr_Handle_GetInfo_def steps set_event_def
        winpr_event_set_def events_since_def is_flag_store_def is_cancel_def
        flag_updates_under_mutex_def cancel_outside_locks_def default_build_def host_ok_def
        running_thread_def world_of_def zeroed_def)

subsection \<open>Destruction\<close>

text \<open>
  Claim C7, amended.  \<open>cleanup_handle\<close> on a live thread object releases, in this order
  and each exactly once: the callback queue, the two rendezvous condition variables, the
  two rendezvous mutexes, the object's mutex, the signal latch, and then the memory.  It
  does so on every host, whichever of the releases report an error: a release that fails
  keeps none of the later ones, the \<^verbatim>\<open>free\<close> included, from being made.
\<close>

theorem cleanup_handle_release_order:
  assumes "heap w a = Some t"
  shows "\<exists>w'. cleanup_handle cfg h (Some a) w = Some w' \<and>
              heap w' a = None \<and>
              filter is_release (events_since w w')
                = [Apc_uninit a,
                   Pthread_cond_destroy a C_threadIsReady, Pthread_cond_destroy a C_threadReady,
                   Pthread_mutex_destroy a M_threadIsReadyMutex,
                   Pthread_mutex_destroy a M_threadReadyMutex,
                   Pthread_mutex_destroy a M_mutex,
                   Winpr_event_uninit a, Free a]"
proof -
  from cleanup_handle_live [OF assms, of cfg h]
  obtain w' where ret: "cleanup_handle cfg h (Some a) w = Some w'"
    and gone: "heap w' = (heap w)(a := None)"
    and log: "trace w' = trace w @ logged h (Apc_uninit a)
                @ logged h (Pthread_cond_destroy a C_threadIsReady)
                @ logged h (Pthread_cond_destroy a C_threadReady)
                @ logged h (Pthread_mutex_destroy a M_threadIsReadyMutex)
                @ logged h (Pthread_mutex_destroy a M_threadReadyMutex)
                @ logged h (Pthread_mutex_destroy a M_mutex)
                @ [Winpr_event_uninit a]
                @ (if WITH_THREAD_LIST cfg then [List_remove a] else [])
                @ [Free a]"
    by blast
  have rel: "is_release (Apc_uninit a)" "is_release (Pthread_cond_destroy a C_threadIsReady)"
    "is_release (Pthread_cond_destroy a C_threadReady)"
    "is_release (Pthread_mutex_destroy a M_threadIsReadyMutex)"
    "is_release (Pthread_mutex_destroy a M_threadReadyMutex)"
    "is_release (Pthread_mutex_destroy a M_mutex)"
    "is_release (Winpr_event_uninit a)" "is_release (Free a)" "\<not> is_release (List_remove a)"
    by (simp_all add: is_release_def)
  have "filter is_release (events_since w w')
          = [Apc_uninit a,
             Pthread_cond_destroy a C_threadIsReady, Pthread_cond_destroy a C_threadReady,
             Pthread_mutex_destroy a M_threadIsReadyMutex,
             Pthread_mutex_destroy a M_threadReadyMutex,
             Pthread_mutex_destroy a M_mutex,
             Winpr_event_uninit a, Free a]"
    by (simp add: events_since_app [OF log] filter_release_logged rel)
  with ret gone show ?thesis by simp
qed

theorem cleanup_handle_release_order_witness:
  "heap (world_of running_thread None) 0 = Some running_thread \<and>
   (\<exists>w'. cleanup_handle default_build host_failing (Some 0) (world_of running_thread None)
            = Some w' \<and>
         heap w' 0 = None \<and>
         filter is_release (events_since (world_of running_thread None) w')
           = [Apc_uninit 0,
              Pthread_cond_destroy 0 C_threadIsReady, Pthread_cond_destroy 0 C_threadReady,
              Pthread_mutex_destroy 0 M_threadIsReadyMutex,
              Pthread_mutex_destroy 0 M_threadReadyMutex,
              Pthread_mutex_destroy 0 M_mutex,
              Winpr_event_uninit 0, Free 0])"
proof -
  have live: "heap (world_of running_thread None) 0 = Some running_thread"
    by (simp add: world_of_def)
  show ?thesis
    using live cleanup_handle_release_order [OF live, of default_build host_failing]
    by simp
qed

text \<open>
  The claim as it was stated has the mutexes released first and the callback queue last.
  On the sample thread the callback queue is released first, the condition variables
  before any mutex, and the signal latch after all of them.
\<close>

theorem cleanup_handle_release_order_counterexample:
  "\<exists>w'. cleanup_handle default_build host_ok (Some 0) (world_of running_thread None) = Some w' \<and>
        events_since (world_of running_thread None) w'
          = [Apc_uninit 0,
             Pthread_cond_destroy 0 C_threadIsReady, Pthread_cond_destroy 0 C_threadReady,
             Pthread_mutex_destroy 0 M_threadIsReadyMutex,
             Pthread_mutex_destroy 0 M_threadReadyMutex,
             Pthread_mutex_destroy 0 M_mutex,
             Winpr_event_uninit 0, Free 0] \<and>
        \<not> specified_release_order 0 (events_since (world_of running_thread None) w') \<and>
        \<not> occurs_before (Winpr_event_uninit 0) (Apc_uninit 0)
             (events_since (world_of running_thread None) w') \<and>
        \<not> occurs_before (Pthread_mutex_destroy 0 M_mutex) (Pthread_cond_destroy 0 C_threadReady)
             (events_since (world_of running_thread None) w')"
proof -
  have live: "heap (world_of running_thread None) 0 = Some running_thread"
    by (simp add: world_of_def)
  from cleanup_handle_live [OF live, of default_build host_ok]
  show ?thesis
    by (auto simp add: logged_def host_ok_def default_build_def events_since_def
          specified_release_order_def occurs_before_def)
qed



subsection \<open>Exit from within the thread\<close>

text \<open>
  Claim C4, amended.  Built without the thread list, \<open>ExitThread\<close> does nothing and
  returns to its caller.  Built with it, and called by a thread the list holds, it marks
  the object exited, stores the exit code, sets the signal latch (the host setting it
  without error), destroys the object when it is detached or was never started and
  leaves it for a later close otherwise, and ends the calling thread with that code.
\<close>

theorem ExitThread_records_exit:
  "(\<not> WITH_THREAD_LIST cfg \<longrightarrow> ExitThread cfg h code w = Some (Returned, w)) \<and>
   (WITH_THREAD_LIST cfg \<and> ListDictionary_GetItemValue w (pthread_self h) = Some a \<and>
    heap w a = Some t \<and> succeeds h (Winpr_event_set a)
      \<longrightarrow> (\<exists>w' es. ExitThread cfg h code w = Some (Thread_ended, w') \<and>
                heap w' a
                  = (if detached t \<or> \<not> started t then None
                     else Some (t\<lparr>exited := True, dwExitCode := code, event := True\<rparr>)) \<and>
                events_since w w'
                  = [List_lock, Store a F_exited, Store a F_dwExitCode, List_unlock,
                     Winpr_event_set a] @ es @ [Pthread_exit code] \<and>
                (Free a \<in> set es) = (detached t \<or> \<not> started t)))"
proof (intro conjI impI)
  show "\<not> WITH_THREAD_LIST cfg \<Longrightarrow> ExitThread cfg h code w = Some (Returned, w)"
    by (simp add: ExitThread_def)
next
  assume c: "WITH_THREAD_LIST cfg \<and> ListDictionary_GetItemValue w (pthread_self h) = Some a \<and>
    heap w a = Some t \<and> succeeds h (Winpr_event_set a)"
  then have found: "thread_list w \<noteq> None" "ListDictionary_Contains w (pthread_self h)"
    using GetItemValue_Contains by blast+
  let ?w5 = "snd (set_event h a
                (emit List_unlock
                  (store a F_dwExitCode (\<lambda>t. t\<lparr>dwExitCode := code\<rparr>)
                    (store a F_exited (\<lambda>t. t\<lparr>exited := True\<rparr>) (emit List_lock w)))))"
  have heap5: "heap ?w5 = (heap w)(a \<mapsto> t\<lparr>exited := True, dwExitCode := code, event := True\<rparr>)"
    using c by (auto simp add: set_event_heap store_def upd_def fun_eq_iff)
  have trace5: "trace ?w5 = trace w @ [List_lock, Store a F_exited, Store a F_dwExitCode,
                  List_unlock, Winpr_event_set a]"
    by (simp add: set_event_trace store_def upd_def)
  show "\<exists>w' es. ExitThread cfg h code w = Some (Thread_ended, w') \<and>
                heap w' a
                  = (if detached t \<or> \<not> started t then None
                     else Some (t\<lparr>exited := True, dwExitCode := code, event := True\<rparr>)) \<and>
                events_since w w'
                  = [List_lock, Store a F_exited, Store a F_dwExitCode, List_unlock,
                     Winpr_event_set a] @ es @ [Pthread_exit code] \<and>
                (Free a \<in> set es) = (detached t \<or> \<not> started t)"
  proof (cases "detached t \<or> \<not> started t")
    case False
    then have "ExitThread cfg h code w = Some (Thread_ended, emit (Pthread_exit code) ?w5)"
      using c found by (auto simp add: ExitThread_def Let_def split_def)
    then show ?thesis
      using False heap5 trace5
      by (auto simp add: events_since_def)
  next
    case True
    have live5: "heap ?w5 a = Some (t\<lparr>exited := True, dwExitCode := code, event := True\<rparr>)"
      using heap5 by simp
    from cleanup_handle_frees [OF live5, of cfg h]
    obtain w6 es where fin: "cleanup_handle cfg h (Some a) ?w5 = Some w6" "heap w6 a = None"
      "trace w6 = trace ?w5 @ es @ [Free a]"
      by blast
    have "ExitThread cfg h code w = Some (Thread_ended, emit (Pthread_exit code) w6)"
      using c found True fin(1) by (auto simp add: ExitThread_def Let_def split_def)
    then show ?thesis
      using True fin(2,3) trace5
      apply (intro exI [of _ "emit (Pthread_exit code) w6"] exI [of _ "es @ [Free a]"])
      apply (simp add: events_since_def)
      done
  qed
qed

theorem ExitThread_records_exit_witness:
  "\<not> WITH_THREAD_LIST default_build \<and>
   ExitThread default_build host_ok 5 (world_of running_thread None)
     = Some (Returned, world_of running_thread None) \<and>
   WITH_THREAD_LIST thread_list_build \<and>
   ListDictionary_GetItemValue (world_of running_thread (Some [0])) (pthread_self host_ok) = Some 0 \<and>
   heap (world_of running_thread (Some [0])) 0 = Some running_thread \<and>
   succeeds host_ok (Winpr_event_set 0) \<and>
   (\<exists>w' es. ExitThread thread_list_build host_ok 5 (world_of running_thread (Some [0]))
               = Some (Thread_ended, w') \<and>
            heap w' 0 = Some (running_thread\<lparr>exited := True, dwExitCode := 5, event := True\<rparr>) \<and>
            events_since (world_of running_thread (Some [0])) w'
              = [List_lock, Store 0 F_exited, Store 0 F_dwExitCode, List_unlock,
                 Winpr_event_set 0] @ es @ [Pthread_exit 5] \<and>
            Free 0 \<notin> set es)"
proof -
  have build: "\<not> WITH_THREAD_LIST default_build" "WITH_THREAD_LIST thread_list_build"
    by (simp_all add: default_build_def thread_list_build_def)
  have found: "ListDictionary_GetItemValue (world_of running_thread (Some [0]))
                 (pthread_self host_ok) = Some 0"
    by (simp add: ListDictionary_GetItemValue_def key_of_def world_of_def host_ok_def
          running_thread_def)
  have live: "heap (world_of running_thread (Some [0])) 0 = Some running_thread"
    by (simp add: world_of_def)
  have ok: "succeeds host_ok (Winpr_event_set 0)"
    by (simp add: host_ok_def)
  have flags: "\<not> detached running_thread" "started running_thread"
    by (simp_all add: running_thread_def zeroed_def)
  show ?thesis
    using build found live ok flags
      ExitThread_records_exit [of default_build host_ok 5 "world_of running_thread None" 0
        running_thread]
      ExitThread_records_exit [of thread_list_build host_ok 5
        "world_of running_thread (Some [0])" 0 running_thread]
    by auto
qed

text \<open>
  The claim as it was stated has the exit code stored, the latch set and the callback
  queue drained.  In the default build the sample thread's exit code and latch are as
  they were after the call; in the build with the thread list the queue is not drained:
  the queued item is still there.
\<close>

theorem ExitThread_records_exit_counterexample:
  "ExitThread default_build host_ok 5 (world_of running_thread None)
     = Some (Returned, world_of running_thread None) \<and>
   \<not> exited running_thread \<and>
   GetExitCodeThread (Ptr 0) (world_of running_thread None) = Some (True, Some 0) \<and>
   \<not> event running_thread \<and>
   (\<exists>w'. ExitThread thread_list_build host_ok 5 (world_of running_thread (Some [0]))
            = Some (Thread_ended, w') \<and>
         Apc_cleanupThread 0 \<notin> set (events_since (world_of running_thread (Some [0])) w') \<and>
         map_option apc (heap w' 0) = Some [queued_item])"
  by (simp add: ExitThread_def GetExitCodeThread_def winpr_Handle_GetInfo_def
        ListDictionary_Contains_def ListDictionary_GetItemValue_def key_of_def
        set_event_def winpr_event_set_def steps events_since_def Let_def
        default_build_def thread_list_build_def host_ok_def running_thread_def world_of_def
        zeroed_def)

subsection \<open>Creation, start and the launcher\<close>

text \<open>
  Claim C2.  In every run of \<open>thread_launcher\<close>, a call of the start routine is preceded,
  in this order, by binding the current-thread slot, locking the \<^verbatim>\<open>threadIsReady\<close> mutex,
  signalling \<^verbatim>\<open>threadReady\<close> (the creator waits on it), the timed wait on
  \<^verbatim>\<open>threadIsReady\<close> (the creator signals it) and the unlock; the routine is called at
  most once.  On the creator's side, whenever \<open>winpr_StartThread\<close>, a \<open>CreateThread\<close> without
  the suspended flag or a \<open>ResumeThread\<close> of a thread not yet started returns success,
  \<^verbatim>\<open>pthread_create\<close> is among the calls it has made.
\<close>

theorem startup_rendezvous_order:
  "(thread_launcher cfg h (Some a) w = Some w' \<and> Start_routine f p \<in> set (events_since w w')
      \<longrightarrow> (\<exists>es. events_since w w'
                   = [Tls_set_value a, Pthread_mutex_lock a M_threadIsReadyMutex,
                      Pthread_cond_signal a C_threadReady,
                      Pthread_cond_timedwait a C_threadIsReady M_threadIsReadyMutex 1,
                      Pthread_mutex_unlock a M_threadIsReadyMutex, Start_routine f p] @ es \<and>
                 filter is_start es = [])) \<and>
   (winpr_StartThread cfg h a w = Some (True, w')
      \<longrightarrow> Pthread_create a \<in> set (events_since w w')) \<and>
   (CreateThread cfg h attrs stack start param flags w = Some (Ptr a, w') \<and>
    flags AND CREATE_SUSPENDED = 0
      \<longrightarrow> Pthread_create a \<in> set (events_since w w')) \<and>
   (ResumeThread cfg h (Ptr a) w = Some (0, w') \<and> heap w a = Some t \<and> \<not> started t
      \<longrightarrow> Pthread_create a \<in> set (events_since w w'))"
  using thread_launcher_order [of cfg h a w w' f p]
    winpr_StartThread_spawns [of cfg h a w w']
    CreateThread_spawns [of cfg h attrs stack start param flags w a w']
    ResumeThread_spawns [of cfg h a w w' t]
  by blast

theorem startup_rendezvous_order_witness:
  "(\<exists>w'. thread_launcher default_build host_ok (Some 0) (world_of running_thread None) = Some w' \<and>
         Start_routine 100 5 \<in> set (events_since (world_of running_thread None) w') \<and>
         (\<exists>es. events_since (world_of running_thread None) w'
                 = [Tls_set_value 0, Pthread_mutex_lock 0 M_threadIsReadyMutex,
                    Pthread_cond_signal 0 C_threadReady,
                    Pthread_cond_timedwait 0 C_threadIsReady M_threadIsReadyMutex 1,
                    Pthread_mutex_unlock 0 M_threadIsReadyMutex, Start_routine 100 5] @ es \<and>
               filter is_start es = [])) \<and>
   (\<exists>w'. winpr_StartThread default_build host_ok 0 (world_of pending_thread None) = Some (True, w') \<and>
         Pthread_create 0 \<in> set (events_since (world_of pending_thread None) w')) \<and>
   (\<exists>w'. CreateThread default_build host_ok 0 0 (Some 100) 5 0 empty_world = Some (Ptr 0, w') \<and>
         (0 :: DWORD) AND CREATE_SUSPENDED = 0 \<and>
         Pthread_create 0 \<in> set (events_since empty_world w')) \<and>
   (\<exists>w'. ResumeThread default_build host_ok (Ptr 0) (world_of pending_thread None) = Some (0, w') \<and>
         heap (world_of pending_thread None) 0 = Some pending_thread \<and>
         \<not> started pending_thread \<and>
         Pthread_create 0 \<in> set (events_since (world_of pending_thread None) w'))"
proof -
  let ?run = "world_of running_thread None" and ?pend = "world_of pending_thread None"
  from thread_launcher_runs [of ?run 0 running_thread 100 host_ok default_build 42
         "heap ?run" running_thread]
  obtain wa where run: "thread_launcher default_build host_ok (Some 0) ?run = Some wa"
    and called: "Start_routine 100 5 \<in> set (events_since ?run wa)"
    by (auto simp add: sample_facts host_ok_succeeds events_since_def)
  from winpr_StartThread_ok [of ?pend 0 pending_thread host_ok default_build]
  obtain wb where start: "winpr_StartThread default_build host_ok 0 ?pend = Some (True, wb)"
    by (auto simp add: sample_facts host_ok_succeeds)
  from CreateThread_ok [OF host_ok_succeeds, of default_build 0 0 "Some 100" 5 0 empty_world]
  obtain wc where create: "CreateThread default_build host_ok 0 0 (Some 100) 5 0 empty_world
                             = Some (Ptr 0, wc)"
    by (auto simp add: sample_facts)
  from ResumeThread_ok [of ?pend 0 pending_thread host_ok default_build]
  obtain wd where resume: "ResumeThread default_build host_ok (Ptr 0) ?pend = Some (0, wd)"
    by (auto simp add: sample_facts host_ok_succeeds)
  have zero: "(0 :: DWORD) AND CREATE_SUSPENDED = 0"
    by simp
  have live: "heap ?pend 0 = Some pending_thread" "\<not> started pending_thread"
    by (simp_all add: sample_facts)
  from startup_rendezvous_order [of default_build host_ok 0 ?run wa 100 5] run called
  have a: "\<exists>es. events_since ?run wa
                 = [Tls_set_value 0, Pthread_mutex_lock 0 M_threadIsReadyMutex,
                    Pthread_cond_signal 0 C_threadReady,
                    Pthread_cond_timedwait 0 C_threadIsReady M_threadIsReadyMutex 1,
                    Pthread_mutex_unlock 0 M_threadIsReadyMutex, Start_routine 100 5] @ es \<and>
               filter is_start es = []"
    by blast
  from startup_rendezvous_order [of default_build host_ok 0 ?pend wb] start
  have b: "Pthread_create 0 \<in> set (events_since ?pend wb)"
    by blast
  from startup_rendezvous_order
         [of default_build host_ok 0 empty_world wc _ _ 0 0 "Some 100" 5 0] create zero
  have c: "Pthread_create 0 \<in> set (events_since empty_world wc)"
    by blast
  from startup_rendezvous_order [of default_build host_ok 0 ?pend wd _ _ _ _ _ _ _ pending_thread]
    resume live
  have d: "Pthread_create 0 \<in> set (events_since ?pend wd)"
    by blast
  show ?thesis
    using run called a start b create zero c resume live d by blast
qed

text \<open>
  Claim C1.  Let \<open>CreateThread\<close> without the suspended flag return a handle, and let the
  launcher then run on the object with a host on which the handshake and the setting of
  the latch succeed.  If the start routine returns \<open>rc\<close> and leaves the object not exited
  (no exit was recorded meanwhile) and not detached (the handle was not closed
  meanwhile), then the launcher has called the routine with the argument given to
  \<open>CreateThread\<close>, the object's latch is set and its exit code is \<open>rc\<close>, and
  \<open>GetExitCodeThread\<close> returns TRUE with \<open>rc\<close>.
\<close>

theorem thread_exit_code_is_return_value:
  assumes create: "CreateThread cfg h attrs stack (Some f) param flags w = Some (Ptr a, w1)"
    and unsuspended: "flags AND CREATE_SUSPENDED = 0"
    and handshake: "succeeds h' (Tls_set_value a)"
      "succeeds h' (Pthread_mutex_lock a M_threadIsReadyMutex)"
      "succeeds h' (Pthread_cond_signal a C_threadReady)"
      "succeeds h' (Pthread_mutex_unlock a M_threadIsReadyMutex)"
    and returns: "routine h' f param (heap w1) = (Some rc, hp)"
    and after: "hp a = Some t'" "\<not> exited t'" "\<not> detached t'" "started t'"
    and latch: "succeeds h' (Winpr_event_set a)"
  shows "\<exists>w2. thread_launcher cfg h' (Some a) w1 = Some w2 \<and>
              Start_routine f param \<in> set (events_since w1 w2) \<and>
              (\<exists>t2. heap w2 a = Some t2 \<and> event t2 \<and> dwExitCode t2 = rc) \<and>
              GetExitCodeThread (Ptr a) w2 = Some (True, Some rc)"
proof -
  let ?t = "(created attrs stack (Some f) param)\<lparr>started := True, thread := new_thread h\<rparr>"
  from CreateThread_started [OF create unsuspended]
  have live: "heap w1 a = Some ?t"
    and listed: "WITH_THREAD_LIST cfg \<longrightarrow> ListDictionary_Contains w1 (thread ?t)"
    by simp_all
  have fn: "lpStartAddress ?t = Some f" and arg: "lpParameter ?t = param"
    by (simp_all add: created_def)
  from thread_launcher_runs [OF live fn handshake listed, of rc hp t'] returns after arg
  obtain w2 where run: "thread_launcher cfg h' (Some a) w1 = Some w2"
    and obj: "heap w2 a = Some (t'\<lparr>apc := [],
                                  dwExitCode := (if exited t' then dwExitCode t' else rc),
                                  event := (succeeds h' (Winpr_event_set a) \<or> event t')\<rparr>)"
    and log: "trace w2
                = trace w1 @ [Tls_set_value a, Pthread_mutex_lock a M_threadIsReadyMutex,
                   Pthread_cond_signal a C_threadReady,
                   Pthread_cond_timedwait a C_threadIsReady M_threadIsReadyMutex 1,
                   Pthread_mutex_unlock a M_threadIsReadyMutex,
                   Start_routine f (lpParameter ?t), Apc_cleanupThread a]
                  @ (if exited t' then [] else [Store a F_dwExitCode])
                  @ [Winpr_event_set a, Pthread_cond_signal a C_threadReady]"
    by auto
  have "Start_routine f param \<in> set (events_since w1 w2)"
    using log arg by (simp add: events_since_def)
  moreover have "GetExitCodeThread (Ptr a) w2 = Some (True, Some rc)"
    using obj after(2) by (simp add: GetExitCodeThread_def winpr_Handle_GetInfo_def)
  ultimately show ?thesis
    using run obj after(2) latch by simp
qed

theorem thread_exit_code_is_return_value_witness:
  "\<exists>w1. CreateThread default_build host_ok 0 0 (Some 100) 5 0 empty_world = Some (Ptr 0, w1) \<and>
         (0 :: DWORD) AND CREATE_SUSPENDED = 0 \<and>
         succeeds host_ok (Tls_set_value 0) \<and>
         succeeds host_ok (Pthread_mutex_lock 0 M_threadIsReadyMutex) \<and>
         succeeds host_ok (Pthread_cond_signal 0 C_threadReady) \<and>
         succeeds host_ok (Pthread_mutex_unlock 0 M_threadIsReadyMutex) \<and>
         routine host_ok 100 5 (heap w1) = (Some 42, heap w1) \<and>
         (\<exists>t'. heap w1 0 = Some t' \<and> \<not> exited t' \<and> \<not> detached t' \<and> started t') \<and>
         succeeds host_ok (Winpr_event_set 0) \<and>
         (\<exists>w2. thread_launcher default_build host_ok (Some 0) w1 = Some w2 \<and>
               Start_routine 100 5 \<in> set (events_since w1 w2) \<and>
               (\<exists>t2. heap w2 0 = Some t2 \<and> event t2 \<and> dwExitCode t2 = 42) \<and>
               GetExitCodeThread (Ptr 0) w2 = Some (True, Some 42))"
proof -
  from CreateThread_ok [OF host_ok_succeeds, of default_build 0 0 "Some 100" 5 0 empty_world]
  obtain w1 where create: "CreateThread default_build host_ok 0 0 (Some 100) 5 0 empty_world
                             = Some (Ptr 0, w1)"
    by (auto simp add: sample_facts)
  have zero: "(0 :: DWORD) AND CREATE_SUSPENDED = 0"
    by simp
  let ?t = "(created 0 0 (Some 100) 5)\<lparr>started := True, thread := new_thread host_ok\<rparr>"
  from CreateThread_started [OF create zero]
  have live: "heap w1 0 = Some ?t"
    by simp
  have flags: "\<not> exited ?t" "\<not> detached ?t" "started ?t"
    by (simp_all add: created_def zeroed_def)
  have ok: "succeeds host_ok (Tls_set_value 0)"
    "succeeds host_ok (Pthread_mutex_lock 0 M_threadIsReadyMutex)"
    "succeeds host_ok (Pthread_cond_signal 0 C_threadReady)"
    "succeeds host_ok (Pthread_mutex_unlock 0 M_threadIsReadyMutex)"
    and latch: "succeeds host_ok (Winpr_event_set 0)"
    and returns: "routine host_ok 100 5 (heap w1) = (Some 42, heap w1)"
    by (simp_all add: host_ok_def)
  from thread_exit_code_is_return_value [OF create zero ok returns live flags latch]
  show ?thesis
    using create zero ok returns live flags latch by blast
qed




end
